theory Spec2Isabelle
  imports Complex_Main "HOL-Library.Char_ord" "HOL-Library.List_Lexorder"
begin

section \<open>Python values shared by the embedded modules\<close>

text \<open>
  The exceptions the embedded functions raise. A function that can raise returns
  \<open>py_error + 'a\<close>, with \<open>Inl\<close> for the exception.
\<close>

datatype py_error = TypeError | ValueError | AttributeError | KeyError

text \<open>
  A dictionary key, an \<open>id\<close> or a \<open>component\<close> is a Python \<open>str\<close> or \<open>None\<close>.
\<close>

type_synonym pystr = "string option"

text \<open>\<open>str(n)\<close> for a non-negative integer, and \<open>str(v)\<close> inside an f-string.\<close>

definition digit_char :: "nat \<Rightarrow> char" where
  "digit_char d = ''0123456789'' ! (d mod 10)"

fun str_nat :: "nat \<Rightarrow> string" where
  "str_nat n = (if n < 10 then [digit_char n] else str_nat (n div 10) @ [digit_char n])"

declare str_nat.simps [simp del]

definition str_of :: "pystr \<Rightarrow> string" where
  "str_of v = (case v of None \<Rightarrow> ''None'' | Some s \<Rightarrow> s)"

text \<open>
  \<open>str.lower()\<close> on ASCII text: an upper-case letter becomes its lower-case letter,
  every other character stays.
\<close>

definition lower_char :: "char \<Rightarrow> char" where
  "lower_char c =
     (case map_of (zip ''ABCDEFGHIJKLMNOPQRSTUVWXYZ'' ''abcdefghijklmnopqrstuvwxyz'') c of
        Some l \<Rightarrow> l
      | None \<Rightarrow> c)"

definition lower :: "string \<Rightarrow> string" where
  "lower s = map lower_char s"

text \<open>The messages handed to \<open>self.logger\<close>, in the order they are emitted.\<close>

datatype level = Debug | Warning | Error

type_synonym log = "(level \<times> string) list"

section \<open>\<open>mt_metadata/utils/list_dict.py\<close>: ListDict\<close>

text \<open>
  \<open>ListDict._home\<close> is an \<open>OrderedDict\<close>: an association list in insertion order whose
  keys are distinct. \<open>setitem\<close> is \<open>OrderedDict.__setitem__\<close>: an existing key keeps its
  position and gets the new value, a new key goes to the end.
\<close>

type_synonym 'a ListDict = "(pystr \<times> 'a) list"

fun setitem :: "'a ListDict \<Rightarrow> pystr \<Rightarrow> 'a \<Rightarrow> 'a ListDict" where
  "setitem [] k v = [(k, v)]"
| "setitem ((k', v') # kvs) k v =
     (if k' = k then (k', v) # kvs else (k', v') # setitem kvs k v)"

definition ld_keys :: "'a ListDict \<Rightarrow> pystr list" where
  "ld_keys ld = map fst ld"

definition ld_values :: "'a ListDict \<Rightarrow> 'a list" where
  "ld_values ld = map snd ld"

definition ld_len :: "'a ListDict \<Rightarrow> nat" where
  "ld_len ld = length ld"

text \<open>
  \<open>__getitem__\<close> with a key: a \<open>str\<close> is looked up (\<open>KeyError\<close> on a miss); \<open>None\<close> is
  neither \<open>str\<close>, \<open>int\<close> nor \<open>slice\<close>, which is the final \<open>TypeError\<close> branch.
\<close>

definition ld_getitem :: "'a ListDict \<Rightarrow> pystr \<Rightarrow> py_error + 'a" where
  "ld_getitem ld value =
     (case value of
        None \<Rightarrow> Inl TypeError
      | Some s \<Rightarrow> (case map_of ld (Some s) of None \<Rightarrow> Inl KeyError | Some v \<Rightarrow> Inr v))"

text \<open>
  What \<open>hasattr(obj, "id")\<close> and \<open>hasattr(obj, "component")\<close> see of an object: \<open>None\<close>
  when the attribute is absent, \<open>Some v\<close> when it is present with value \<open>v\<close> (which may
  itself be Python's \<open>None\<close>). The collection is duck-typed, so the view of the element
  type is a parameter of the operations that derive a key.
\<close>

record attrs =
  attr_id :: "pystr option"
  attr_component :: "pystr option"

definition get_key_from_object :: "('a \<Rightarrow> attrs) \<Rightarrow> 'a \<Rightarrow> py_error + pystr" where
  "get_key_from_object view obj =
     (case attr_id (view obj) of
        Some i \<Rightarrow> Inr i
      | None \<Rightarrow>
          (case attr_component (view obj) of
             Some c \<Rightarrow> Inr c
           | None \<Rightarrow> Inl TypeError))"

text \<open>
  \<open>append\<close>: the \<open>TypeError\<close> of the key derivation is caught and replaced by
  \<open>str(len(self.keys()))\<close>; any other exception would propagate.
\<close>

definition ld_append :: "('a \<Rightarrow> attrs) \<Rightarrow> 'a ListDict \<Rightarrow> 'a \<Rightarrow> py_error + 'a ListDict" where
  "ld_append view ld obj =
     (case get_key_from_object view obj of
        Inr key \<Rightarrow> Inr (setitem ld key obj)
      | Inl e \<Rightarrow>
          (if e = TypeError
           then Inr (setitem ld (Some (str_nat (length (ld_keys ld)))) obj)
           else Inl e))"

text \<open>\<open>extend\<close> with another ListDict: every entry of \<open>other\<close> is stored under its key.\<close>

fun ld_extend :: "'a ListDict \<Rightarrow> 'a ListDict \<Rightarrow> 'a ListDict" where
  "ld_extend ld [] = ld"
| "ld_extend ld ((key, v) # other) = ld_extend (setitem ld key v) other"

text \<open>
  The key the specification describes for \<open>append\<close>: \<open>item.id\<close> if non-null, else
  \<open>item.component\<close> if present, else \<open>str(len(collection))\<close>.
\<close>

definition spec_append_key :: "('a \<Rightarrow> attrs) \<Rightarrow> 'a ListDict \<Rightarrow> 'a \<Rightarrow> pystr" where
  "spec_append_key view ld obj =
     (case attr_id (view obj) of
        Some (Some i) \<Rightarrow> Some i
      | _ \<Rightarrow>
          (case attr_component (view obj) of
             Some c \<Rightarrow> c
           | None \<Rightarrow> Some (str_nat (length ld))))"

text \<open>An object as the collection sees it: its two attributes and nothing else.\<close>

definition plain_view :: "attrs \<Rightarrow> attrs" where
  "plain_view a = a"

section \<open>The metadata entities: \<open>timeseries/run.py\<close> and \<open>timeseries/station.py\<close>\<close>

text \<open>
  \<open>TimePeriod.start\<close> and \<open>TimePeriod.end\<close> are ISO-8601 strings; the source compares them
  with \<open>==\<close>, \<open><\<close>, \<open>>\<close>, \<open>min\<close> and \<open>max\<close>, which on \<open>str\<close> is the lexicographic order on
  characters. A fresh \<open>TimePeriod()\<close> carries the 1980 sentinel in both fields.
\<close>

record TimePeriod =
  tp_start :: string
  tp_end :: string

definition sentinel :: string where
  "sentinel = ''1980-01-01T00:00:00+00:00''"

definition TimePeriod_init :: TimePeriod where
  "TimePeriod_init = \<lparr>tp_start = sentinel, tp_end = sentinel\<rparr>"

text \<open>\<open>min(xs)\<close> and \<open>max(xs)\<close> of a non-empty list (the source guards both calls).\<close>

definition py_min :: "'a::linorder list \<Rightarrow> 'a" where
  "py_min xs = fold min (tl xs) (hd xs)"

definition py_max :: "'a::linorder list \<Rightarrow> 'a" where
  "py_max xs = fold max (tl xs) (hd xs)"

text \<open>
  The channel classes \<open>Electric\<close>, \<open>Magnetic\<close> and \<open>Auxiliary\<close> are not part of the
  sources at hand; a channel is modelled as one record carrying its class and the
  attributes that \<open>run.py\<close> and \<open>emtfxml.py\<close> read or write. Numbers are only copied or
  compared with zero, never computed with.
\<close>

datatype channel_class = Electric | Magnetic | Auxiliary

record Instrument =
  inst_id :: pystr
  inst_name :: pystr
  inst_manufacturer :: pystr
  inst_type :: pystr

record Location =
  loc_x :: "real option"
  loc_y :: "real option"
  loc_z :: "real option"

record Electrode =
  el_id :: pystr
  el_type :: pystr
  el_manufacturer :: pystr
  el_x :: "real option"
  el_y :: "real option"
  el_z :: "real option"
  el_x2 :: "real option"
  el_y2 :: "real option"
  el_z2 :: "real option"

record base =
  time_period :: TimePeriod
  logger :: log

record channel = base +
  ch_class :: channel_class
  component :: pystr
  sensor :: Instrument
  location :: Location
  measurement_azimuth :: "real option"
  translated_azimuth :: "real option"
  dipole_length :: "real option"
  positive :: Electrode
  negative :: Electrode

record run = base +
  run_id :: pystr
  sample_rate :: "real option"
  data_logger :: Instrument
  channels :: "channel list"

record station = base +
  station_id :: pystr
  runs :: "run ListDict"

definition Instrument_init :: Instrument where
  "Instrument_init =
     \<lparr>inst_id = None, inst_name = None, inst_manufacturer = None, inst_type = None\<rparr>"

definition Electrode_init :: Electrode where
  "Electrode_init =
     \<lparr>el_id = None, el_type = None, el_manufacturer = None,
      el_x = None, el_y = None, el_z = None, el_x2 = None, el_y2 = None, el_z2 = None\<rparr>"

definition Channel_init :: "channel_class \<Rightarrow> channel" where
  "Channel_init cls =
     \<lparr>time_period = TimePeriod_init, logger = [],
      ch_class = cls, component = None, sensor = Instrument_init,
      location = \<lparr>loc_x = None, loc_y = None, loc_z = None\<rparr>,
      measurement_azimuth = None, translated_azimuth = None,
      dipole_length = (if cls = Electric then Some 0 else None),
      positive = Electrode_init, negative = Electrode_init\<rparr>"

definition Run_init :: run where
  "Run_init =
     \<lparr>time_period = TimePeriod_init, logger = [],
      run_id = None, sample_rate = None, data_logger = Instrument_init, channels = []\<rparr>"

definition Station_init :: station where
  "Station_init =
     \<lparr>time_period = TimePeriod_init, logger = [], station_id = None, runs = []\<rparr>"

text \<open>
  A Python value handed to a method whose source checks its class with \<open>isinstance\<close>,
  and \<open>str(type(value))\<close> as it appears in the messages. The module of a channel class is
  the one its name suggests; only the class matters to the checks.
\<close>

datatype pyobj = RunObj run | StationObj station | ChannelObj channel | IntObj int

definition quoted :: "string \<Rightarrow> string" where
  "quoted s = [CHR 0x27] @ s @ [CHR 0x27]"

fun type_str :: "pyobj \<Rightarrow> string" where
  "type_str (RunObj r) = ''<class '' @ quoted ''mt_metadata.timeseries.run.Run'' @ ''>''"
| "type_str (StationObj s) =
     ''<class '' @ quoted ''mt_metadata.timeseries.station.Station'' @ ''>''"
| "type_str (ChannelObj c) =
     (case ch_class c of
        Electric \<Rightarrow> ''<class '' @ quoted ''mt_metadata.timeseries.electric.Electric'' @ ''>''
      | Magnetic \<Rightarrow> ''<class '' @ quoted ''mt_metadata.timeseries.magnetic.Magnetic'' @ ''>''
      | Auxiliary \<Rightarrow> ''<class '' @ quoted ''mt_metadata.timeseries.auxiliary.Auxiliary'' @ ''>'')"
| "type_str (IntObj i) = ''<class '' @ quoted ''int'' @ ''>''"

text \<open>
  A method either returns, leaving \<open>self\<close> in a new state, or raises, and then \<open>self\<close> is
  in the state it had when the exception left the method.
\<close>

datatype 's outcome = Return 's | Raise py_error 's

text \<open>How ListDict sees a run: it has an \<open>id\<close> attribute and no \<open>component\<close>.\<close>

definition run_view :: "run \<Rightarrow> attrs" where
  "run_view r = \<lparr>attr_id = Some (run_id r), attr_component = None\<rparr>"

subsection \<open>Run\<close>

definition channels_recorded_all :: "run \<Rightarrow> pystr list" where
  "channels_recorded_all r = map component (channels r)"

definition has_channel :: "run \<Rightarrow> pystr \<Rightarrow> bool" where
  "has_channel r cname = (cname \<in> set (channels_recorded_all r))"

text \<open>\<open>list.index\<close>: the position of the first equal element.\<close>

fun list_index :: "'a list \<Rightarrow> 'a \<Rightarrow> nat" where
  "list_index [] x = 0"
| "list_index (y # ys) x = (if y = x then 0 else Suc (list_index ys x))"

definition channel_index :: "run \<Rightarrow> pystr \<Rightarrow> nat option" where
  "channel_index r cname =
     (if has_channel r cname then Some (list_index (channels_recorded_all r) cname) else None)"

text \<open>
  \<open>channels_dict\<close> is \<open>dict([(c.component, c) for c in self.channels])\<close>: with a repeated
  component the last channel wins, which is \<open>map_of\<close> on the reversed list.
\<close>

definition channels_dict :: "run \<Rightarrow> pystr \<Rightarrow> channel option" where
  "channels_dict r = map_of (rev (map (\<lambda>c. (component c, c)) (channels r)))"

definition get_channel :: "run \<Rightarrow> pystr \<Rightarrow> channel option" where
  "get_channel r cname = (if has_channel r cname then channels_dict r cname else None)"

definition add_channel :: "run \<Rightarrow> channel \<Rightarrow> run" where
  "add_channel r channel_obj =
     (case channel_index r (component channel_obj) of
        Some index \<Rightarrow> r\<lparr>channels := (channels r)[index := channel_obj]\<rparr>
      | None \<Rightarrow> r\<lparr>channels := channels r @ [channel_obj]\<rparr>)"

text \<open>\<open>Run.__add__\<close>: \<open>self.channels\<close> is a plain list, and \<open>list.extend\<close> concatenates.\<close>

definition run_add :: "run \<Rightarrow> pyobj \<Rightarrow> run outcome" where
  "run_add self other =
     (case other of
        RunObj b \<Rightarrow> Return (self\<lparr>channels := channels self @ channels b\<rparr>)
      | _ \<Rightarrow>
          Raise TypeError
            (self\<lparr>logger := logger self @
               [(Error, ''Can only merge Run objects, not '' @ type_str other)]\<rparr>))"

definition run_update_time_period :: "run \<Rightarrow> run" where
  "run_update_time_period self =
     (let start = map (\<lambda>channel. tp_start (time_period channel)) (channels self);
          end' = map (\<lambda>channel. tp_end (time_period channel)) (channels self);
          self1 =
            (if start \<noteq> [] then
               (if tp_start (time_period self) = sentinel
                then self\<lparr>time_period := (time_period self)\<lparr>tp_start := py_min start\<rparr>\<rparr>
                else if tp_start (time_period self) > py_min start
                then self\<lparr>time_period := (time_period self)\<lparr>tp_start := py_min start\<rparr>\<rparr>
                else self)
             else self)
      in (if end' \<noteq> [] then
            (if tp_end (time_period self1) = sentinel
             then self1\<lparr>time_period := (time_period self1)\<lparr>tp_end := py_max end'\<rparr>\<rparr>
             else if tp_end (time_period self1) < py_max end'
             then self1\<lparr>time_period := (time_period self1)\<lparr>tp_end := py_max end'\<rparr>\<rparr>
             else self1)
          else self1))"

text \<open>
  The setters of the named accessors. \<open>ex\<close> and \<open>ey\<close> take an \<open>Electric\<close>, \<open>hx\<close>, \<open>hy\<close> and
  \<open>hz\<close> a \<open>Magnetic\<close>; the five share one shape and differ in the class, the name and in
  what the mismatch branch logs (the message for the electric ones, the class
  \<open>ValueError\<close> itself for the magnetic ones).
\<close>

definition class_name :: "channel_class \<Rightarrow> string" where
  "class_name cls =
     (case cls of Electric \<Rightarrow> ''Electric'' | Magnetic \<Rightarrow> ''Magnetic'' | Auxiliary \<Rightarrow> ''Auxiliary'')"

definition isinstance :: "pyobj \<Rightarrow> channel_class \<Rightarrow> bool" where
  "isinstance value cls = (case value of ChannelObj c \<Rightarrow> ch_class c = cls | _ \<Rightarrow> False)"

definition log_to :: "level \<Rightarrow> string \<Rightarrow> run \<Rightarrow> run" where
  "log_to lv msg self = self\<lparr>logger := logger self @ [(lv, msg)]\<rparr>"

definition named_setter :: "channel_class \<Rightarrow> string \<Rightarrow> run \<Rightarrow> pyobj \<Rightarrow> run outcome" where
  "named_setter cls name self value =
     (case value of
        ChannelObj c \<Rightarrow>
          (if ch_class c \<noteq> cls then
             Raise ValueError
               (log_to Error (''Input must be metadata.'' @ class_name cls @ '' not ''
                                @ type_str value) self)
           else
             (case component c of
                None \<Rightarrow>
                  Return (add_channel
                    (log_to Debug (''assuming initial empty '' @ class_name cls @ '' object'') self)
                    c)
              | Some cname \<Rightarrow>
                  (if lower cname \<notin> set [name] then
                     Raise ValueError
                       (log_to Error
                          (if cls = Electric
                           then ''Input Electric.component must be '' @ name @ '' not '' @ cname
                           else ''<class '' @ quoted ''ValueError'' @ ''>'') self)
                   else Return (add_channel self c))))
      | _ \<Rightarrow>
          Raise ValueError
            (log_to Error (''Input must be metadata.'' @ class_name cls @ '' not ''
                             @ type_str value) self))"

definition ex_setter :: "run \<Rightarrow> pyobj \<Rightarrow> run outcome" where
  "ex_setter = named_setter Electric ''ex''"

definition ey_setter :: "run \<Rightarrow> pyobj \<Rightarrow> run outcome" where
  "ey_setter = named_setter Electric ''ey''"

definition hx_setter :: "run \<Rightarrow> pyobj \<Rightarrow> run outcome" where
  "hx_setter = named_setter Magnetic ''hx''"

definition hy_setter :: "run \<Rightarrow> pyobj \<Rightarrow> run outcome" where
  "hy_setter = named_setter Magnetic ''hy''"

definition hz_setter :: "run \<Rightarrow> pyobj \<Rightarrow> run outcome" where
  "hz_setter = named_setter Magnetic ''hz''"

text \<open>
  The \<open>temperature\<close> setter has no branch for an unset component: \<open>value.component.lower()\<close>
  on \<open>None\<close> raises \<open>AttributeError\<close> before anything is logged or stored.
\<close>

definition temperature_setter :: "run \<Rightarrow> pyobj \<Rightarrow> run outcome" where
  "temperature_setter self value =
     (case value of
        ChannelObj c \<Rightarrow>
          (if ch_class c \<noteq> Auxiliary then
             Raise ValueError
               (log_to Error (''Input must be metadata.Auxiliary not '' @ type_str value) self)
           else
             (case component c of
                None \<Rightarrow> Raise AttributeError self
              | Some cname \<Rightarrow>
                  (if lower cname \<notin> set [''temperature''] then
                     Raise ValueError
                       (log_to Error (''<class '' @ quoted ''ValueError'' @ ''>'') self)
                   else Return (add_channel self c))))
      | _ \<Rightarrow>
          Raise ValueError
            (log_to Error (''Input must be metadata.Auxiliary not '' @ type_str value) self))"

text \<open>The setter behind each accessor name, and the class each accessor takes.\<close>

datatype accessor = Ex | Ey | Hx | Hy | Hz | Temperature

fun accessor_name :: "accessor \<Rightarrow> string" where
  "accessor_name Ex = ''ex''"
| "accessor_name Ey = ''ey''"
| "accessor_name Hx = ''hx''"
| "accessor_name Hy = ''hy''"
| "accessor_name Hz = ''hz''"
| "accessor_name Temperature = ''temperature''"

fun accessor_class :: "accessor \<Rightarrow> channel_class" where
  "accessor_class Ex = Electric"
| "accessor_class Ey = Electric"
| "accessor_class Hx = Magnetic"
| "accessor_class Hy = Magnetic"
| "accessor_class Hz = Magnetic"
| "accessor_class Temperature = Auxiliary"

fun assign :: "accessor \<Rightarrow> run \<Rightarrow> pyobj \<Rightarrow> run outcome" where
  "assign Ex = ex_setter"
| "assign Ey = ey_setter"
| "assign Hx = hx_setter"
| "assign Hy = hy_setter"
| "assign Hz = hz_setter"
| "assign Temperature = temperature_setter"

subsection \<open>Station\<close>

definition run_list :: "station \<Rightarrow> pystr list" where
  "run_list s = ld_keys (runs s)"

definition has_run :: "station \<Rightarrow> pystr \<Rightarrow> bool" where
  "has_run s rid = (rid \<in> set (run_list s))"

text \<open>
  \<open>add_run\<close>. \<open>Base.update\<close>, which merges the fields of the new run into the stored one,
  is not among the sources at hand and is a parameter \<open>update\<close> of the model:
  \<open>update old new\<close> is the state of the stored run after \<open>old.update(new)\<close>. The stored
  object is mutated in place, so it keeps its key and position.
\<close>

definition add_run :: "(run \<Rightarrow> run \<Rightarrow> run) \<Rightarrow> station \<Rightarrow> pyobj \<Rightarrow> station outcome" where
  "add_run update self run_obj =
     (case run_obj of
        RunObj r \<Rightarrow>
          (if has_run self (run_id r) then
             (case ld_getitem (runs self) (run_id r) of
                Inl e \<Rightarrow> Raise e self
              | Inr old \<Rightarrow>
                  Return (self\<lparr>runs := setitem (runs self) (run_id r) (update old r),
                                logger := logger self @
                                  [(Warning, ''Station '' @ str_of (run_id r)
                                              @ '' already exists, updating metadata'')]\<rparr>))
           else
             (case ld_append run_view (runs self) r of
                Inl e \<Rightarrow> Raise e self
              | Inr runs' \<Rightarrow> Return (self\<lparr>runs := runs'\<rparr>)))
      | _ \<Rightarrow> Raise TypeError self)"

text \<open>\<open>Station.__add__\<close>: the runs of \<open>other\<close> are absorbed with \<open>ListDict.extend\<close>.\<close>

definition station_add :: "station \<Rightarrow> pyobj \<Rightarrow> station outcome" where
  "station_add self other =
     (case other of
        StationObj b \<Rightarrow> Return (self\<lparr>runs := ld_extend (runs self) (runs b)\<rparr>)
      | _ \<Rightarrow>
          Raise TypeError
            (self\<lparr>logger := logger self @
               [(Error, ''Can only merge Station objects, not '' @ type_str other)]\<rparr>))"

definition station_update_time_period :: "station \<Rightarrow> station" where
  "station_update_time_period self =
     (let start = map (\<lambda>run. tp_start (time_period run)) (ld_values (runs self));
          end' = map (\<lambda>run. tp_end (time_period run)) (ld_values (runs self));
          self1 =
            (if start \<noteq> [] then
               (if tp_start (time_period self) = sentinel
                then self\<lparr>time_period := (time_period self)\<lparr>tp_start := py_min start\<rparr>\<rparr>
                else if tp_start (time_period self) > py_min start
                then self\<lparr>time_period := (time_period self)\<lparr>tp_start := py_min start\<rparr>\<rparr>
                else self)
             else self)
      in (if end' \<noteq> [] then
            (if tp_end (time_period self1) = sentinel
             then self1\<lparr>time_period := (time_period self1)\<lparr>tp_end := py_max end'\<rparr>\<rparr>
             else if tp_end (time_period self1) < py_max end'
             then self1\<lparr>time_period := (time_period self1)\<lparr>tp_end := py_max end'\<rparr>\<rparr>
             else self1)
          else self1))"

text \<open>
  The start and end bounds of the children, in the order in which
  \<open>update_time_period\<close> collects them.
\<close>

abbreviation station_starts :: "station \<Rightarrow> string list" where
  "station_starts s \<equiv> map (\<lambda>run. tp_start (time_period run)) (ld_values (runs s))"

abbreviation station_ends :: "station \<Rightarrow> string list" where
  "station_ends s \<equiv> map (\<lambda>run. tp_end (time_period run)) (ld_values (runs s))"

abbreviation run_starts :: "run \<Rightarrow> string list" where
  "run_starts r \<equiv> map (\<lambda>channel. tp_start (time_period channel)) (channels r)"

abbreviation run_ends :: "run \<Rightarrow> string list" where
  "run_ends r \<equiv> map (\<lambda>channel. tp_end (time_period channel)) (channels r)"

section \<open>\<open>transfer_functions/io/emtfxml/emtfxml.py\<close>: the derived tags of a write\<close>

text \<open>The two static catalogs, \<open>estimates_dict\<close> and \<open>data_types_dict\<close>.\<close>

record Estimate =
  est_name :: string
  est_type :: string
  est_description :: string
  est_external_url :: string
  est_intention :: string
  est_tag :: string

record DataType =
  dt_name :: string
  dt_type :: string
  dt_output :: string
  dt_input :: string
  dt_units :: string
  dt_description :: string
  dt_external_url :: string
  dt_intention :: string
  dt_tag :: string

definition estimates_dict :: "(string \<times> Estimate) list" where
  "estimates_dict =
     [(''variance'',
       \<lparr>est_name = ''VAR'', est_type = ''complex'', est_description = ''Variance'',
        est_external_url = ''http://www.iris.edu/dms/products/emtf/variance.html'',
        est_intention = ''error estimate'', est_tag = ''variance''\<rparr>),
      (''covariance'',
       \<lparr>est_name = ''COV'', est_type = ''complex'', est_description = ''Covariance'',
        est_external_url = ''http://www.iris.edu/dms/products/emtf/covariance.html'',
        est_intention = ''error estimate'', est_tag = ''covariance''\<rparr>),
      (''residual_covariance'',
       \<lparr>est_name = ''RESIDCOV'', est_type = ''complex'',
        est_description = ''residual_covariance (N)'',
        est_external_url = ''http://www.iris.edu/dms/products/emtf/residual_covariance.html'',
        est_intention = ''error estimate'', est_tag = ''residual_covariance''\<rparr>),
      (''inverse_signal_power'',
       \<lparr>est_name = ''INVSIGCOV'', est_type = ''complex'',
        est_description = ''Inverse Coherent Signal Power Matrix (S)'',
        est_external_url =
          ''http://www.iris.edu/dms/products/emtf/inverse_signal_covariance.html'',
        est_intention = ''signal power estimate'', est_tag = ''inverse_signal_covariance''\<rparr>),
      (''coherence'',
       \<lparr>est_name = ''COH'', est_type = ''complex'', est_description = ''Coherence'',
        est_external_url = ''http://www.iris.edu/dms/products/emtf/coherence.html'',
        est_intention = ''signal coherence'', est_tag = ''coherence''\<rparr>),
      (''predicted_coherence'',
       \<lparr>est_name = ''PREDCOH'', est_type = ''complex'',
        est_description = ''Multiple Coherence'',
        est_external_url = ''http://www.iris.edu/dms/products/emtf/multiple_coherence.html'',
        est_intention = ''signal coherence'', est_tag = ''multiple_coherence''\<rparr>),
      (''signal_amplidude'',
       \<lparr>est_name = ''SIGAMP'', est_type = ''complex'', est_description = ''Signal Amplitude'',
        est_external_url = ''http://www.iris.edu/dms/products/emtf/signal_amplitude.html'',
        est_intention = ''signal power estimate'', est_tag = ''signal_power''\<rparr>),
      (''signal_noise'',
       \<lparr>est_name = ''SIGNOISE'', est_type = ''complex'', est_description = ''Signal Noise'',
        est_external_url = ''http://www.iris.edu/dms/products/emtf/signal_noise.html'',
        est_intention = ''error estimate'', est_tag = ''signal_noise''\<rparr>)]"

definition data_types_dict :: "(string \<times> DataType) list" where
  "data_types_dict =
     [(''impedance'',
       \<lparr>dt_name = ''Z'', dt_type = ''complex'', dt_output = ''E'', dt_input = ''H'',
        dt_units = ''[mV/km]/[nT]'', dt_description = ''MT impedance'',
        dt_external_url = ''http://www.iris.edu/dms/products/emtf/impedance.html'',
        dt_intention = ''primary data type'', dt_tag = ''impedance''\<rparr>),
      (''tipper'',
       \<lparr>dt_name = ''T'', dt_type = ''complex'', dt_output = ''H'', dt_input = ''H'',
        dt_units = ''[]'', dt_description = ''Vertical Field Transfer Functions (Tipper)'',
        dt_external_url = ''http://www.iris.edu/dms/products/emtf/tipper.html'',
        dt_intention = ''primary data type'', dt_tag = ''tipper''\<rparr>)]"

text \<open>\<open>d[key]\<close> on a dictionary with string keys: \<open>KeyError\<close> on a miss.\<close>

definition dict_get :: "(string \<times> 'a) list \<Rightarrow> string \<Rightarrow> py_error + 'a" where
  "dict_get d key = (case map_of d key of None \<Rightarrow> Inl KeyError | Some v \<Rightarrow> Inr v)"

definition then_do :: "py_error + 'a \<Rightarrow> ('a \<Rightarrow> py_error + 'b) \<Rightarrow> py_error + 'b" where
  "then_do m f = (case m of Inl e \<Rightarrow> Inl e | Inr x \<Rightarrow> f x)"

text \<open>
  \<open>self.data\<close>: each matrix is \<open>None\<close> or an array, given here by the list of its entries
  (the shape plays no part in \<open>np.all(m == 0.0)\<close>). The impedance, the tipper and the
  covariances are complex, the variances real. The only operation on an entry is the
  comparison with \<open>0.0\<close>, so the entries are taken as numbers; a NaN, which is never
  equal to zero, is not represented.
\<close>

record TransferFunction =
  period :: "real list option"
  z :: "complex list option"
  z_var :: "real list option"
  z_invsigcov :: "complex list option"
  z_residcov :: "complex list option"
  t :: "complex list option"
  t_var :: "real list option"
  t_invsigcov :: "complex list option"
  t_residcov :: "complex list option"

definition np_all_zero :: "'a::zero list \<Rightarrow> bool" where
  "np_all_zero m = list_all (\<lambda>x. x = 0) m"

text \<open>The records of the document model that the field notes and the site layout hold.\<close>

record Magnetometer =
  mag_id :: pystr
  mag_name :: pystr
  mag_manufacturer :: pystr
  mag_type :: pystr

record xml_Electrode =
  pot_number :: pystr
  pot_location :: pystr
  pot_value :: pystr

record Dipole =
  dp_name :: pystr
  dp_azimuth :: "real option"
  dp_length :: "real option"
  dp_manufacturer :: pystr
  dp_type :: pystr
  electrode :: "xml_Electrode list"

record layout_channel =
  lc_name :: pystr
  lc_orientation :: "real option"
  lc_x :: "real option"
  lc_y :: "real option"
  lc_z :: "real option"
  lc_x2 :: "real option"
  lc_y2 :: "real option"
  lc_z2 :: "real option"

record xml_Run =
  fn_instrument :: Instrument
  fn_sampling_rate :: "real option"
  fn_start :: string
  fn_end :: string
  fn_run :: pystr
  magnetometer :: "Magnetometer list"
  dipole :: "Dipole list"

text \<open>
  The part of an \<open>EMTFXML\<close> object that the derived tags and the field notes touch:
  \<open>self.site.id\<close>, \<open>self.period_range\<close>, \<open>self.data\<close>,
  \<open>self.statistical_estimates.estimates_list\<close>,
  \<open>self.data_types.data_types_list\<close>, \<open>self.field_notes._run_list\<close>, the two channel lists
  of \<open>self.site_layout\<close> and the logger.
\<close>

record EMTFXML =
  site_id :: pystr
  period_range_min :: "real option"
  period_range_max :: "real option"
  data :: TransferFunction
  estimates_list :: "Estimate list"
  data_types_list :: "DataType list"
  field_notes_run_list :: "xml_Run list"
  input_channels :: "layout_channel list"
  output_channels :: "layout_channel list"
  emtf_logger :: log

definition append_estimate :: "string \<Rightarrow> EMTFXML \<Rightarrow> py_error + EMTFXML" where
  "append_estimate key self =
     then_do (dict_get estimates_dict key)
       (\<lambda>e. Inr (self\<lparr>estimates_list := estimates_list self @ [e]\<rparr>))"

definition append_data_type :: "string \<Rightarrow> EMTFXML \<Rightarrow> py_error + EMTFXML" where
  "append_data_type key self =
     then_do (dict_get data_types_dict key)
       (\<lambda>d. Inr (self\<lparr>data_types_list := data_types_list self @ [d]\<rparr>))"

definition get_statistical_estimates :: "EMTFXML \<Rightarrow> py_error + EMTFXML" where
  "get_statistical_estimates self =
     then_do
       (let s0 = self\<lparr>estimates_list := []\<rparr> in
        case z_var (data s0) of
          Some m \<Rightarrow> (if \<not> np_all_zero m then append_estimate ''variance'' s0 else Inr s0)
        | None \<Rightarrow>
            (case t_var (data s0) of
               Some m \<Rightarrow> (if \<not> np_all_zero m then append_estimate ''variance'' s0 else Inr s0)
             | None \<Rightarrow> Inr s0))
       (\<lambda>s1. then_do
          (case z_invsigcov (data s1) of
             Some m \<Rightarrow>
               (if \<not> np_all_zero m then append_estimate ''inverse_signal_power'' s1 else Inr s1)
           | None \<Rightarrow>
               (case t_invsigcov (data s1) of
                  Some m \<Rightarrow>
                    (if \<not> np_all_zero m then append_estimate ''inverse_signal_power'' s1
                     else Inr s1)
                | None \<Rightarrow> Inr s1))
          (\<lambda>s2.
             case z_residcov (data s2) of
               Some m \<Rightarrow>
                 (if \<not> np_all_zero m then append_estimate ''residual_covariance'' s2 else Inr s2)
             | None \<Rightarrow>
                 (case t_residcov (data s2) of
                    Some m \<Rightarrow>
                      (if \<not> np_all_zero m then append_estimate ''residual_covariance'' s2
                       else Inr s2)
                  | None \<Rightarrow> Inr s2)))"

definition get_data_types :: "EMTFXML \<Rightarrow> py_error + EMTFXML" where
  "get_data_types self =
     then_do
       (let s0 = self\<lparr>data_types_list := []\<rparr> in
        case z (data s0) of
          Some m \<Rightarrow> (if \<not> np_all_zero m then append_data_type ''impedance'' s0 else Inr s0)
        | None \<Rightarrow> Inr s0)
       (\<lambda>s1.
          case t (data s1) of
            Some m \<Rightarrow> (if \<not> np_all_zero m then append_data_type ''tipper'' s1 else Inr s1)
          | None \<Rightarrow> Inr s1)"

text \<open>
  \<open>write\<close> starts with \<open>self._get_statistical_estimates()\<close> and \<open>self._get_data_types()\<close>;
  what follows serialises the sections and changes neither list.
\<close>

definition write_derived_tags :: "EMTFXML \<Rightarrow> py_error + EMTFXML" where
  "write_derived_tags self = then_do (get_statistical_estimates self) get_data_types"

section \<open>\<open>emtfxml.py\<close>: the field notes written by the \<open>station_metadata\<close> setter\<close>

text \<open>\<open>str.capitalize()\<close> on ASCII text.\<close>

definition upper_char :: "char \<Rightarrow> char" where
  "upper_char c =
     (case map_of (zip ''abcdefghijklmnopqrstuvwxyz'' ''ABCDEFGHIJKLMNOPQRSTUVWXYZ'') c of
        Some u \<Rightarrow> u
      | None \<Rightarrow> c)"

definition capitalize :: "string \<Rightarrow> string" where
  "capitalize s = (case s of [] \<Rightarrow> [] | c # cs \<Rightarrow> upper_char c # lower cs)"

definition or_zero :: "real option \<Rightarrow> real option" where
  "or_zero v = (case v of None \<Rightarrow> Some 0 | Some x \<Rightarrow> Some x)"

definition Run_xml_init :: xml_Run where
  "Run_xml_init =
     \<lparr>fn_instrument = Instrument_init, fn_sampling_rate = None,
      fn_start = sentinel, fn_end = sentinel, fn_run = None,
      magnetometer = [], dipole = []\<rparr>"

text \<open>
  The loop over \<open>["hx", "hy", "hz"]\<close> for one run. \<open>rch = getattr(r, comp)\<close> is
  \<open>r.get_channel(comp)\<close>, which returns \<open>None\<close> for a component the run does not have.
  For \<open>None\<close> the first attribute access inside the \<open>try\<close> raises \<open>AttributeError\<close>, which
  is caught and logged; the test \<open>rch.sensor.name in ["NIMS", "LEMI"]\<close> that follows the
  \<open>try\<close> statement then reads \<open>rch.sensor\<close> of the same \<open>None\<close>, and that
  \<open>AttributeError\<close> is outside every handler.
\<close>

fun write_magnetometers ::
  "run \<Rightarrow> string list \<Rightarrow> xml_Run \<times> EMTFXML \<Rightarrow> (xml_Run \<times> EMTFXML) outcome" where
  "write_magnetometers r [] (fn, self) = Return (fn, self)"
| "write_magnetometers r (cname # rest) (fn, self) =
     (case get_channel r (Some cname) of
        None \<Rightarrow>
          Raise AttributeError
            (fn, self\<lparr>emtf_logger := emtf_logger self @
                        [(Debug, ''Did not find '' @ cname @ '' in run'')]\<rparr>)
      | Some rch \<Rightarrow>
          (let mag = \<lparr>mag_id = inst_id (sensor rch), mag_name = inst_name (sensor rch),
                      mag_manufacturer = inst_manufacturer (sensor rch),
                      mag_type = inst_type (sensor rch)\<rparr>;
               fn1 = fn\<lparr>magnetometer := magnetometer fn @ [mag]\<rparr>;
               ch_in = \<lparr>lc_name = Some (capitalize cname),
                        lc_orientation = translated_azimuth rch,
                        lc_x = or_zero (loc_x (location rch)),
                        lc_y = or_zero (loc_y (location rch)),
                        lc_z = or_zero (loc_z (location rch)),
                        lc_x2 = None, lc_y2 = None, lc_z2 = None\<rparr>;
               self1 = (if cname \<in> set [''hx'', ''hy'']
                        then self\<lparr>input_channels := input_channels self @ [ch_in]\<rparr>
                        else self\<lparr>output_channels := output_channels self @ [ch_in]\<rparr>)
           in if inst_name (sensor rch) \<in> set [Some ''NIMS'', Some ''LEMI'']
                 \<and> inst_type (sensor rch) \<in> set [Some ''fluxgate'']
              then Return (fn1, self1)
              else write_magnetometers r rest (fn1, self1)))"

text \<open>
  The loop over \<open>["ex", "ey"]\<close>: here the whole body is inside the \<open>try\<close>, so a missing
  channel is logged and the loop goes on.
\<close>

fun write_dipoles :: "run \<Rightarrow> string list \<Rightarrow> xml_Run \<times> EMTFXML \<Rightarrow> xml_Run \<times> EMTFXML" where
  "write_dipoles r [] (fn, self) = (fn, self)"
| "write_dipoles r (cname # rest) (fn, self) =
     (case get_channel r (Some cname) of
        None \<Rightarrow>
          write_dipoles r rest
            (fn, self\<lparr>emtf_logger := emtf_logger self @
                        [(Debug, ''Did not find '' @ cname @ '' in run'')]\<rparr>)
      | Some c \<Rightarrow>
          (let pot_p = \<lparr>pot_number = el_id (positive c),
                        pot_location = Some (if cname = ''ex'' then ''n'' else ''e''),
                        pot_value = el_type (positive c)\<rparr>;
               pot_n = \<lparr>pot_number = el_id (negative c),
                        pot_location = Some (if cname = ''ex'' then ''s'' else ''w''),
                        pot_value = el_type (negative c)\<rparr>;
               dp = \<lparr>dp_name = Some (capitalize cname), dp_azimuth = translated_azimuth c,
                     dp_length = dipole_length c,
                     dp_manufacturer = el_manufacturer (positive c),
                     dp_type = el_type (positive c),
                     electrode = [pot_p, pot_n]\<rparr>;
               ch_out = \<lparr>lc_name = Some (capitalize cname),
                         lc_orientation = translated_azimuth c,
                         lc_x = or_zero (el_x (negative c)),
                         lc_y = or_zero (el_y (negative c)),
                         lc_z = or_zero (el_z (negative c)),
                         lc_x2 = or_zero (el_x2 (positive c)),
                         lc_y2 = or_zero (el_y2 (positive c)),
                         lc_z2 = or_zero (el_z2 (positive c))\<rparr>
           in write_dipoles r rest
                (fn\<lparr>dipole := dipole fn @ [dp]\<rparr>,
                 self\<lparr>output_channels := output_channels self @ [ch_out]\<rparr>)))"

text \<open>
  The loop \<open>for r in sm.runs\<close> of the setter, from \<open>self.field_notes._run_list = []\<close> to
  its end. The statements of the setter before it copy scalar fields of the station and
  read neither runs nor channels.
\<close>

fun write_field_notes :: "run list \<Rightarrow> EMTFXML \<Rightarrow> EMTFXML outcome" where
  "write_field_notes [] self = Return self"
| "write_field_notes (r # rs) self =
     (let fn = Run_xml_init\<lparr>fn_instrument :=
                   \<lparr>inst_id = inst_id (data_logger r), inst_name = inst_type (data_logger r),
                    inst_manufacturer = inst_manufacturer (data_logger r),
                    inst_type = inst_type Instrument_init\<rparr>,
                 fn_sampling_rate := sample_rate r,
                 fn_start := tp_start (time_period r),
                 fn_end := tp_end (time_period r),
                 fn_run := run_id r\<rparr>
      in case write_magnetometers r [''hx'', ''hy'', ''hz''] (fn, self) of
           Raise e (fn1, self1) \<Rightarrow> Raise e self1
         | Return (fn1, self1) \<Rightarrow>
             (case write_dipoles r [''ex'', ''ey''] (fn1, self1) of
                (fn2, self2) \<Rightarrow>
                  write_field_notes rs
                    (self2\<lparr>field_notes_run_list := field_notes_run_list self2 @ [fn2]\<rparr>)))"

definition station_metadata_setter_runs :: "station \<Rightarrow> EMTFXML \<Rightarrow> EMTFXML outcome" where
  "station_metadata_setter_runs sm self =
     write_field_notes (ld_values (runs sm)) (self\<lparr>field_notes_run_list := []\<rparr>)"

definition EMTFXML_init :: EMTFXML where
  "EMTFXML_init =
     \<lparr>site_id = None, period_range_min = None, period_range_max = None,
      data = \<lparr>period = None, z = None, z_var = None, z_invsigcov = None, z_residcov = None,
              t = None, t_var = None, t_invsigcov = None, t_residcov = None\<rparr>,
      estimates_list = [], data_types_list = [], field_notes_run_list = [],
      input_channels = [], output_channels = [], emtf_logger = []\<rparr>"

section \<open>\<open>emtfxml.py\<close>: writing a tree and reading it back\<close>

text \<open>
  The \<open>station_metadata\<close> setter as far as the station id and the runs go:
  \<open>self.site.id = sm.id\<close>, then the loop over the runs.
\<close>

definition station_metadata_setter :: "station \<Rightarrow> EMTFXML \<Rightarrow> EMTFXML outcome" where
  "station_metadata_setter sm self =
     station_metadata_setter_runs sm (self\<lparr>site_id := station_id sm\<rparr>)"

text \<open>
  The \<open>station_metadata\<close> getter as far as the station id and the runs go. A field-notes
  record whose sampling rate is \<open>0\<close> or \<open>None\<close> is skipped. With exactly one
  magnetometer record the three magnetic channels are built from it; otherwise one
  channel per record, named by the lower-cased \<open>name\<close> of the record.
\<close>

definition magnetic_channel :: "string \<Rightarrow> Magnetometer \<Rightarrow> channel" where
  "magnetic_channel cname mag =
     (Channel_init Magnetic)
       \<lparr>component := Some cname,
        sensor := \<lparr>inst_id = mag_id mag, inst_name = mag_name mag,
                   inst_manufacturer = mag_manufacturer mag, inst_type = mag_type mag\<rparr>\<rparr>"

fun read_magnetometers :: "Magnetometer list \<Rightarrow> run \<Rightarrow> run" where
  "read_magnetometers [] r = r"
| "read_magnetometers (mag # mags) r =
     (case mag_name mag of
        None \<Rightarrow> read_magnetometers mags r
      | Some cname \<Rightarrow>
          read_magnetometers mags (add_channel r (magnetic_channel (lower cname) mag)))"

text \<open>
  The loop over the electrodes of a dipole: \<open>pot.location.lower()\<close> raises on a null
  location; the second assignment to \<open>type\<close> in each branch is the one that stays.
\<close>

fun read_electrodes :: "Dipole \<Rightarrow> xml_Electrode list \<Rightarrow> channel \<Rightarrow> py_error + channel" where
  "read_electrodes dp [] c = Inr c"
| "read_electrodes dp (pot # pots) c =
     (case pot_location pot of
        None \<Rightarrow> Inl AttributeError
      | Some loc \<Rightarrow>
          (if lower loc \<in> set [''n'', ''e''] then
             read_electrodes dp pots
               (c\<lparr>positive := (positive c)\<lparr>el_id := pot_number pot, el_type := dp_type dp,
                                             el_manufacturer := dp_manufacturer dp\<rparr>\<rparr>)
           else if lower loc \<in> set [''s'', ''w''] then
             read_electrodes dp pots
               (c\<lparr>negative := (negative c)\<lparr>el_id := pot_number pot, el_type := dp_type dp,
                                             el_manufacturer := dp_manufacturer dp\<rparr>\<rparr>)
           else read_electrodes dp pots c))"

fun read_dipoles :: "Dipole list \<Rightarrow> run \<Rightarrow> py_error + run" where
  "read_dipoles [] r = Inr r"
| "read_dipoles (dp # dps) r =
     (case dp_name dp of
        None \<Rightarrow> read_dipoles dps r
      | Some cname \<Rightarrow>
          then_do
            (read_electrodes dp (electrode dp)
               ((Channel_init Electric)
                  \<lparr>component := Some (lower cname), translated_azimuth := dp_azimuth dp,
                   dipole_length := dp_length dp\<rparr>))
            (\<lambda>c. read_dipoles dps (add_channel r c)))"

text \<open>
  The loop over the site-layout channels. \<open>getattr(r, name)\<close> yields a channel only
  through one of the six accessors of \<open>Run\<close>, which is \<open>get_channel\<close>; for any other name,
  and for a component the run does not have, the access to \<open>c.component\<close> that follows
  raises \<open>AttributeError\<close>. The channel found is the object stored in the run (the last
  one with that component, as \<open>channels_dict\<close> picks it), and it is changed in place.
\<close>

definition getattr_channel :: "run \<Rightarrow> string \<Rightarrow> channel option" where
  "getattr_channel r name =
     (if name \<in> set [''ex'', ''ey'', ''hx'', ''hy'', ''hz'', ''temperature'']
      then get_channel r (Some name) else None)"

fun update_last :: "('a \<Rightarrow> bool) \<Rightarrow> ('a \<Rightarrow> 'a) \<Rightarrow> 'a list \<Rightarrow> 'a list" where
  "update_last P f [] = []"
| "update_last P f (x # xs) =
     (if list_ex P xs then x # update_last P f xs
      else if P x then f x # xs
      else x # xs)"

definition place_channel :: "layout_channel \<Rightarrow> channel \<Rightarrow> channel" where
  "place_channel ch c =
     (let c1 =
        (if component c \<in> set [Some ''hx'', Some ''hy'', Some ''hz''] then
           c\<lparr>location := \<lparr>loc_x = lc_x ch, loc_y = lc_y ch, loc_z = lc_z ch\<rparr>\<rparr>
         else if component c \<in> set [Some ''ex'', Some ''ey''] then
           c\<lparr>negative := (negative c)\<lparr>el_x := lc_x ch, el_y := lc_y ch, el_z := lc_z ch\<rparr>,
             positive := (positive c)\<lparr>el_x2 := lc_x2 ch, el_y2 := lc_y2 ch, el_z2 := lc_z2 ch\<rparr>\<rparr>
         else c)
      in c1\<lparr>measurement_azimuth := lc_orientation ch,
            translated_azimuth := lc_orientation ch\<rparr>)"

fun read_layout :: "layout_channel list \<Rightarrow> run \<Rightarrow> py_error + run" where
  "read_layout [] r = Inr r"
| "read_layout (ch # chs) r =
     (case lc_name ch of
        None \<Rightarrow> Inl AttributeError
      | Some name \<Rightarrow>
          (case getattr_channel r (lower name) of
             None \<Rightarrow> Inl AttributeError
           | Some c \<Rightarrow>
               read_layout chs
                 (r\<lparr>channels :=
                      update_last (\<lambda>x. component x = Some (lower name)) (place_channel ch)
                        (channels r)\<rparr>)))"

text \<open>
  The loop over \<open>self.field_notes.run_list\<close>. \<open>s.add_run(r)\<close> is \<open>Station.add_run\<close>, with
  \<open>Base.update\<close> as its parameter.
\<close>

fun read_field_notes ::
  "(run \<Rightarrow> run \<Rightarrow> run) \<Rightarrow> layout_channel list \<Rightarrow> xml_Run list \<Rightarrow> station
     \<Rightarrow> py_error + station" where
  "read_field_notes update layout [] s = Inr s"
| "read_field_notes update layout (fn # fns) s =
     (if fn_sampling_rate fn \<in> set [Some 0, None] then read_field_notes update layout fns s
      else
        (let r = Run_init
               \<lparr>run_id := fn_run fn,
                data_logger := (data_logger Run_init)
                  \<lparr>inst_id := inst_id (fn_instrument fn),
                   inst_type := inst_name (fn_instrument fn),
                   inst_manufacturer := inst_manufacturer (fn_instrument fn)\<rparr>,
                sample_rate := fn_sampling_rate fn,
                time_period := \<lparr>tp_start = fn_start fn, tp_end = fn_end fn\<rparr>\<rparr>;
             r1 = (case magnetometer fn of
                     [mag] \<Rightarrow>
                       fold (\<lambda>cname r'. add_channel r' (magnetic_channel cname mag))
                         [''hx'', ''hy'', ''hz''] r
                   | mags \<Rightarrow> read_magnetometers mags r)
         in then_do (read_dipoles (dipole fn) r1)
              (\<lambda>r2. then_do (read_layout layout r2)
                 (\<lambda>r3. case add_run update s (RunObj r3) of
                          Raise e s' \<Rightarrow> Inl e
                        | Return s' \<Rightarrow> read_field_notes update layout fns s'))))"

definition station_metadata_getter :: "(run \<Rightarrow> run \<Rightarrow> run) \<Rightarrow> EMTFXML \<Rightarrow> py_error + station" where
  "station_metadata_getter update self =
     read_field_notes update (input_channels self @ output_channels self)
       (field_notes_run_list self) (Station_init\<lparr>station_id := site_id self\<rparr>)"

text \<open>
  The tree handed to \<open>write_emtfxml\<close> and returned by \<open>read_emtfxml\<close>: the station with
  its runs and channels, and the period axis. \<open>write_emtfxml\<close> fills a fresh \<open>EMTFXML\<close>
  through the setter, stores the periods and their range (\<open>min\<close> and \<open>max\<close> of an empty
  axis raise \<open>ValueError\<close>) and calls \<open>write\<close>, which derives the tags.
\<close>

record TF =
  tf_station_metadata :: station
  tf_period :: "real list"

definition write_emtfxml :: "TF \<Rightarrow> py_error + EMTFXML" where
  "write_emtfxml tf_object =
     (case station_metadata_setter (tf_station_metadata tf_object) EMTFXML_init of
        Raise e emtf \<Rightarrow> Inl e
      | Return emtf \<Rightarrow>
          (if tf_period tf_object = [] then Inl ValueError
           else write_derived_tags
                  (emtf\<lparr>data := (data emtf)\<lparr>period := Some (tf_period tf_object)\<rparr>,
                        period_range_min := Some (py_min (tf_period tf_object)),
                        period_range_max := Some (py_max (tf_period tf_object))\<rparr>)))"

text \<open>
  Modelled from the spec: the XML layer between \<open>write\<close> and \<open>read\<close> (\<open>to_xml\<close>,
  \<open>read_dict\<close>, the element tree and the file) is not among the sources. The
  specification describes reading as the inverse of writing and the round trip as
  lossless, so the document that \<open>read\<close> fills from a written file is the document that was
  written.
\<close>

definition document_read_from_written :: "EMTFXML \<Rightarrow> EMTFXML" where
  "document_read_from_written written = written"

text \<open>
  \<open>read_emtfxml\<close> on the document filled by \<open>read\<close>: the period range is taken from the
  period axis, the station comes from the getter, the periods are handed over.
\<close>

definition read_emtfxml :: "(run \<Rightarrow> run \<Rightarrow> run) \<Rightarrow> EMTFXML \<Rightarrow> py_error + TF \<times> EMTFXML" where
  "read_emtfxml update parsed =
     (case period (data parsed) of
        None \<Rightarrow> Inl AttributeError
      | Some ps \<Rightarrow>
          (if ps = [] then Inl ValueError
           else
             (let obj = parsed\<lparr>period_range_min := Some (py_min ps),
                               period_range_max := Some (py_max ps)\<rparr>
              in then_do (station_metadata_getter update obj)
                   (\<lambda>s. Inr (\<lparr>tf_station_metadata = s, tf_period = ps\<rparr>, obj)))))"

definition read_of_write :: "(run \<Rightarrow> run \<Rightarrow> run) \<Rightarrow> TF \<Rightarrow> py_error + TF \<times> EMTFXML" where
  "read_of_write update tree =
     then_do (write_emtfxml tree) (\<lambda>written. read_emtfxml update (document_read_from_written written))"

text \<open>
  The conditions under which the magnetometer records written for a run identify its
  magnetic channels again: the sensors of \<open>hx\<close>, \<open>hy\<close> and \<open>hz\<close> are named after their
  components, or the sensor of \<open>hx\<close> is one of the triaxial fluxgate instruments, for which
  a single record is written.
\<close>

definition has_five_channels :: "run \<Rightarrow> bool" where
  "has_five_channels r =
     list_all (\<lambda>cname. has_channel r (Some cname)) [''hx'', ''hy'', ''hz'', ''ex'', ''ey'']"

definition sensors_named_by_component :: "run \<Rightarrow> bool" where
  "sensors_named_by_component r =
     list_all
       (\<lambda>cname. case get_channel r (Some cname) of
                  None \<Rightarrow> False
                | Some c \<Rightarrow> (case inst_name (sensor c) of
                               None \<Rightarrow> False
                             | Some n \<Rightarrow> lower n = cname))
       [''hx'', ''hy'', ''hz'']"

definition single_triaxial_sensor :: "run \<Rightarrow> bool" where
  "single_triaxial_sensor r =
     (case get_channel r (Some ''hx'') of
        None \<Rightarrow> False
      | Some c \<Rightarrow> inst_name (sensor c) \<in> set [Some ''NIMS'', Some ''LEMI'']
                   \<and> inst_type (sensor c) \<in> set [Some ''fluxgate''])"

section \<open>Properties of ListDict\<close>

lemma setitem_keys_present:
  "k \<in> set (map fst ld) \<Longrightarrow> map fst (setitem ld k v) = map fst ld"
proof (induction ld)
  case Nil
  then show ?case by simp
next
  case (Cons p ld)
  obtain k' v' where p: "p = (k', v')" by (cases p)
  show ?case
  proof (cases "k' = k")
    case True
    with p show ?thesis by simp
  next
    case False
    with Cons.prems p have "k \<in> set (map fst ld)" by auto
    with Cons.IH False p show ?thesis by simp
  qed
qed

lemma setitem_present:
  "k \<in> set (map fst ld) \<Longrightarrow>
     \<exists>i < length ld. fst (ld ! i) = k \<and> (\<forall>j < i. fst (ld ! j) \<noteq> k) \<and> setitem ld k v = ld[i := (k, v)]"
proof (induction ld)
  case Nil
  then show ?case by simp
next
  case (Cons p ld)
  show ?case
  proof (cases "fst p = k")
    case True
    then have "setitem (p # ld) k v = (p # ld)[0 := (k, v)]"
      by (cases p) simp
    with True show ?thesis
      by (intro exI [of _ 0]) simp
  next
    case False
    with Cons.prems have "k \<in> set (map fst ld)" by auto
    from Cons.IH [OF this] obtain i where i: "i < length ld" "fst (ld ! i) = k"
      "\<forall>j < i. fst (ld ! j) \<noteq> k" "setitem ld k v = ld[i := (k, v)]"
      by blast
    have "\<forall>j < Suc i. fst ((p # ld) ! j) \<noteq> k"
      using False i(3) by (auto simp: nth_Cons split: nat.splits)
    moreover have "setitem (p # ld) k v = (p # ld)[Suc i := (k, v)]"
      using False i(4) by (cases p) simp
    ultimately show ?thesis
      using i(1,2) by (intro exI [of _ "Suc i"]) simp
  qed
qed

lemma setitem_absent:
  "k \<notin> set (map fst ld) \<Longrightarrow> setitem ld k v = ld @ [(k, v)]"
  by (induction ld) auto

lemma setitem_keys_set: "set (map fst (setitem ld k v)) = insert k (set (map fst ld))"
proof (induction ld)
  case Nil
  then show ?case by simp
next
  case (Cons p ld)
  obtain k' v' where p: "p = (k', v')" by (cases p)
  show ?case
  proof (cases "k' = k")
    case True
    with p show ?thesis by auto
  next
    case False
    have "set (map fst (setitem (p # ld) k v)) = insert k' (set (map fst (setitem ld k v)))"
      using False p by simp
    also have "\<dots> = insert k' (insert k (set (map fst ld)))"
      using Cons.IH by simp
    finally show ?thesis using p by auto
  qed
qed

lemma setitem_distinct: "distinct (map fst ld) \<Longrightarrow> distinct (map fst (setitem ld k v))"
proof (induction ld)
  case Nil
  then show ?case by simp
next
  case (Cons p ld)
  obtain k' v' where p: "p = (k', v')" by (cases p)
  show ?case
  proof (cases "k' = k")
    case True
    with Cons.prems p show ?thesis by simp
  next
    case False
    have "k' \<notin> set (map fst (setitem ld k v))"
      using Cons.prems False p unfolding setitem_keys_set by simp
    with Cons False p show ?thesis by simp
  qed
qed

lemma setitem_map_of: "map_of (setitem ld k v) = (map_of ld)(k \<mapsto> v)"
  by (induction ld) (auto simp: fun_eq_iff)

lemma str_nat_0: "str_nat 0 = ''0''"
  by (simp add: str_nat.simps digit_char_def)

lemma str_nat_1: "str_nat (Suc 0) = ''1''"
  by (simp add: str_nat.simps digit_char_def)

lemma ld_append_setitem:
  "ld_append view ld obj =
     Inr (setitem ld
       (case attr_id (view obj) of
          Some i \<Rightarrow> i
        | None \<Rightarrow> (case attr_component (view obj) of
                     Some c \<Rightarrow> c
                   | None \<Rightarrow> Some (str_nat (length ld)))) obj)"
  by (simp add: ld_append_def get_key_from_object_def ld_keys_def split: option.splits)

text \<open>
  C6, as the specification words it, is false: an object whose \<open>id\<close> attribute is present
  but null (a freshly constructed \<open>Station()\<close> or \<open>Run()\<close>) is stored under the key
  \<open>None\<close>, not under its component or the stringified length, because
  \<open>_get_key_from_object\<close> tests \<open>hasattr(obj, "id")\<close> and not the value.
\<close>

theorem ld_append_null_id_counterexample:
  "ld_append plain_view [] \<lparr>attr_id = Some None, attr_component = None\<rparr>
     \<noteq> Inr (setitem []
             (spec_append_key plain_view [] \<lparr>attr_id = Some None, attr_component = None\<rparr>)
             \<lparr>attr_id = Some None, attr_component = None\<rparr>)"
  by (simp add: ld_append_def get_key_from_object_def plain_view_def spec_append_key_def)

text \<open>
  C6 (amended): for every item appended to a ListDict, the derived key is \<open>item.id\<close>
  whenever the item has an \<open>id\<close> attribute (null included), else \<open>item.component\<close> when
  that attribute is present, else the stringified current length of the collection; the
  append never fails; when the derived key already exists the entry at its index is
  overwritten in place and every other entry and the order stay as they were, otherwise
  the entry is added at the end.
\<close>

theorem ld_append_key_and_position:
  "\<exists>key. ld_append view ld obj = Inr (setitem ld key obj)
     \<and> (\<forall>i. attr_id (view obj) = Some i \<longrightarrow> key = i)
     \<and> (\<forall>c. attr_id (view obj) = None \<and> attr_component (view obj) = Some c \<longrightarrow> key = c)
     \<and> (attr_id (view obj) = None \<and> attr_component (view obj) = None
          \<longrightarrow> key = Some (str_nat (length ld)))
     \<and> (key \<in> set (ld_keys ld) \<longrightarrow>
          (\<exists>i < length ld. ld_keys ld ! i = key \<and> setitem ld key obj = ld[i := (key, obj)]))
     \<and> (key \<notin> set (ld_keys ld) \<longrightarrow> setitem ld key obj = ld @ [(key, obj)])"
proof -
  define key where "key =
    (case attr_id (view obj) of
       Some i \<Rightarrow> i
     | None \<Rightarrow> (case attr_component (view obj) of
                  Some c \<Rightarrow> c
                | None \<Rightarrow> Some (str_nat (length ld))))"
  have app: "ld_append view ld obj = Inr (setitem ld key obj)"
    unfolding key_def by (rule ld_append_setitem)
  have present: "\<exists>i < length ld. ld_keys ld ! i = key \<and> setitem ld key obj = ld[i := (key, obj)]"
    if "key \<in> set (ld_keys ld)"
  proof -
    from that have "key \<in> set (map fst ld)" by (simp add: ld_keys_def)
    from setitem_present [OF this, of obj] obtain i where
      "i < length ld" "fst (ld ! i) = key" "setitem ld key obj = ld[i := (key, obj)]"
      by blast
    then show ?thesis by (auto simp: ld_keys_def)
  qed
  have absent: "setitem ld key obj = ld @ [(key, obj)]" if "key \<notin> set (ld_keys ld)"
    using that by (simp add: ld_keys_def setitem_absent)
  have k1: "\<forall>i. attr_id (view obj) = Some i \<longrightarrow> key = i"
    by (simp add: key_def)
  have k2: "\<forall>c. attr_id (view obj) = None \<and> attr_component (view obj) = Some c \<longrightarrow> key = c"
    by (simp add: key_def)
  have k3: "attr_id (view obj) = None \<and> attr_component (view obj) = None
              \<longrightarrow> key = Some (str_nat (length ld))"
    by (simp add: key_def)
  from app k1 k2 k3 present absent show ?thesis by blast
qed

theorem ld_append_key_and_position_witness:
  "ld_append plain_view
       [(Some ''a'', \<lparr>attr_id = Some (Some ''a''), attr_component = None\<rparr>),
        (Some ''b'', \<lparr>attr_id = Some (Some ''b''), attr_component = None\<rparr>)]
       \<lparr>attr_id = Some (Some ''a''), attr_component = Some (Some ''ex'')\<rparr>
     = Inr [(Some ''a'', \<lparr>attr_id = Some (Some ''a''), attr_component = Some (Some ''ex'')\<rparr>),
            (Some ''b'', \<lparr>attr_id = Some (Some ''b''), attr_component = None\<rparr>)]
   \<and> ld_append plain_view
       [(Some ''a'', \<lparr>attr_id = Some (Some ''a''), attr_component = None\<rparr>)]
       \<lparr>attr_id = None, attr_component = None\<rparr>
     = Inr [(Some ''a'', \<lparr>attr_id = Some (Some ''a''), attr_component = None\<rparr>),
            (Some ''1'', \<lparr>attr_id = None, attr_component = None\<rparr>)]"
  using ld_append_key_and_position [of plain_view
      "[(Some ''a'', \<lparr>attr_id = Some (Some ''a''), attr_component = None\<rparr>),
        (Some ''b'', \<lparr>attr_id = Some (Some ''b''), attr_component = None\<rparr>)]"
      "\<lparr>attr_id = Some (Some ''a''), attr_component = Some (Some ''ex'')\<rparr>"]
    ld_append_key_and_position [of plain_view
      "[(Some ''a'', \<lparr>attr_id = Some (Some ''a''), attr_component = None\<rparr>)]"
      "\<lparr>attr_id = None, attr_component = None\<rparr>"]
  by (simp add: plain_view_def ld_keys_def str_nat_1)

text \<open>
  C7, as stated, is false: appending an item with neither an \<open>id\<close> nor a \<open>component\<close>
  attribute to an empty ListDict does not fail; the item is stored under the key \<open>"0"\<close>.
\<close>

theorem ld_append_no_identity_counterexample:
  "ld_append plain_view [] \<lparr>attr_id = None, attr_component = None\<rparr>
     = Inr [(Some ''0'', \<lparr>attr_id = None, attr_component = None\<rparr>)]"
  by (simp add: ld_append_def get_key_from_object_def plain_view_def ld_keys_def str_nat_0)

text \<open>
  C7 (amended): for every item that has neither an \<open>id\<close> attribute nor a \<open>component\<close>
  attribute, \<open>_get_key_from_object\<close> raises \<open>TypeError\<close>, and \<open>append\<close> catches it: the
  append succeeds and the item is stored under the stringified current length of the
  collection.
\<close>

theorem ld_append_no_identity:
  assumes "attr_id (view obj) = None" and "attr_component (view obj) = None"
  shows "get_key_from_object view obj = Inl TypeError
     \<and> ld_append view ld obj = Inr (setitem ld (Some (str_nat (length ld))) obj)
     \<and> map_of (setitem ld (Some (str_nat (length ld))) obj) (Some (str_nat (length ld))) = Some obj"
  using assms
  by (simp add: get_key_from_object_def ld_append_def ld_keys_def setitem_map_of)

theorem ld_append_no_identity_witness:
  "attr_id (plain_view \<lparr>attr_id = None, attr_component = None\<rparr>) = None
   \<and> attr_component (plain_view \<lparr>attr_id = None, attr_component = None\<rparr>) = None
   \<and> get_key_from_object plain_view \<lparr>attr_id = None, attr_component = None\<rparr> = Inl TypeError
   \<and> ld_append plain_view [(Some ''a'', \<lparr>attr_id = Some (Some ''a''), attr_component = None\<rparr>)]
        \<lparr>attr_id = None, attr_component = None\<rparr>
      = Inr [(Some ''a'', \<lparr>attr_id = Some (Some ''a''), attr_component = None\<rparr>),
             (Some ''1'', \<lparr>attr_id = None, attr_component = None\<rparr>)]"
proof -
  have h1: "attr_id (plain_view \<lparr>attr_id = None, attr_component = None\<rparr>) = None"
    by (simp add: plain_view_def)
  have h2: "attr_component (plain_view \<lparr>attr_id = None, attr_component = None\<rparr>) = None"
    by (simp add: plain_view_def)
  show ?thesis
    using h1 h2 ld_append_no_identity [where view = plain_view
      and obj = "\<lparr>attr_id = None, attr_component = None\<rparr>"
      and ld = "[(Some ''a'', \<lparr>attr_id = Some (Some ''a''), attr_component = None\<rparr>)]",
      OF h1 h2]
    by (simp add: str_nat_1)
qed

section \<open>Properties of the entities\<close>

lemma setitem_first:
  "k \<in> set (map fst ld) \<Longrightarrow>
     \<exists>i < length ld. fst (ld ! i) = k \<and> (\<forall>j < i. fst (ld ! j) \<noteq> k)
        \<and> map_of ld k = Some (snd (ld ! i))
        \<and> (\<forall>v. setitem ld k v = ld[i := (k, v)])"
proof (induction ld)
  case Nil
  then show ?case by simp
next
  case (Cons p ld)
  obtain k' v' where p: "p = (k', v')" by (cases p)
  show ?case
  proof (cases "k' = k")
    case True
    with p show ?thesis
      by (intro exI [of _ 0]) simp
  next
    case False
    with Cons.prems p have "k \<in> set (map fst ld)" by auto
    from Cons.IH [OF this] obtain i where i: "i < length ld" "fst (ld ! i) = k"
      "\<forall>j < i. fst (ld ! j) \<noteq> k" "map_of ld k = Some (snd (ld ! i))"
      "\<forall>v. setitem ld k v = ld[i := (k, v)]"
      by blast
    have "\<forall>j < Suc i. fst ((p # ld) ! j) \<noteq> k"
      using False p i(3) by (auto simp: nth_Cons split: nat.splits)
    moreover have "\<forall>v. setitem (p # ld) k v = (p # ld)[Suc i := (k, v)]"
      using False p i(5) by simp
    moreover have "map_of (p # ld) k = Some (snd ((p # ld) ! Suc i))"
      using False p i(4) by simp
    ultimately show ?thesis
      using i(1,2) by (intro exI [of _ "Suc i"]) simp
  qed
qed

lemma setitem_setitem: "setitem (setitem ld k v) k w = setitem ld k w"
  by (induction ld) auto

lemma ld_getitem_setitem: "ld_getitem (setitem ld (Some i) v) (Some i) = Inr v"
  by (simp add: ld_getitem_def setitem_map_of)

lemma list_index_first:
  "x \<in> set xs \<Longrightarrow>
     list_index xs x < length xs \<and> xs ! list_index xs x = x
       \<and> (\<forall>j < list_index xs x. xs ! j \<noteq> x)"
proof (induction xs)
  case Nil
  then show ?case by simp
next
  case (Cons y ys)
  show ?case
  proof (cases "y = x")
    case True
    then show ?thesis by simp
  next
    case False
    with Cons.prems have "x \<in> set ys" by simp
    from Cons.IH [OF this] False show ?thesis
      by (auto simp: nth_Cons split: nat.splits)
  qed
qed

lemma list_index_absent: "x \<notin> set xs \<Longrightarrow> list_index (xs @ [x]) x = length xs"
  by (induction xs) auto

lemma list_index_update:
  "x \<in> set xs \<Longrightarrow> list_index (xs[list_index xs x := x]) x = list_index xs x"
  by (induction xs) auto

lemma add_channel_present:
  assumes "has_channel r (component c)"
  shows "\<exists>n < length (channels r). component (channels r ! n) = component c
           \<and> (\<forall>j < n. component (channels r ! j) \<noteq> component c)
           \<and> add_channel r c = r\<lparr>channels := (channels r)[n := c]\<rparr>"
proof -
  let ?n = "list_index (channels_recorded_all r) (component c)"
  from assms have mem: "component c \<in> set (map component (channels r))"
    by (simp add: has_channel_def channels_recorded_all_def)
  from list_index_first [OF mem]
  have n: "?n < length (channels r)" "component (channels r ! ?n) = component c"
    "\<forall>j < ?n. component (channels r ! j) \<noteq> component c"
    by (auto simp: channels_recorded_all_def)
  have "add_channel r c = r\<lparr>channels := (channels r)[?n := c]\<rparr>"
    using assms by (simp add: add_channel_def channel_index_def)
  with n show ?thesis by blast
qed

lemma add_channel_absent:
  "\<not> has_channel r (component c) \<Longrightarrow> add_channel r c = r\<lparr>channels := channels r @ [c]\<rparr>"
  by (simp add: add_channel_def channel_index_def)

lemma add_channel_twice: "add_channel (add_channel r c) c = add_channel r c"
proof (cases "has_channel r (component c)")
  case True
  let ?cs = "map component (channels r)"
  let ?n = "list_index ?cs (component c)"
  from True have mem: "component c \<in> set ?cs"
    by (simp add: has_channel_def channels_recorded_all_def)
  have first: "add_channel r c = r\<lparr>channels := (channels r)[?n := c]\<rparr>"
    using True by (simp add: add_channel_def channel_index_def channels_recorded_all_def)
  have comps: "map component ((channels r)[?n := c]) = ?cs[?n := component c]"
    by (simp add: map_update)
  have has: "has_channel (r\<lparr>channels := (channels r)[?n := c]\<rparr>) (component c)"
    using list_index_first [OF mem]
    by (simp add: has_channel_def channels_recorded_all_def comps set_update_memI)
  have idx: "list_index (?cs[?n := component c]) (component c) = ?n"
    by (rule list_index_update [OF mem])
  show ?thesis
    unfolding first using has idx
    by (simp add: add_channel_def channel_index_def channels_recorded_all_def comps)
next
  case False
  then have nmem: "component c \<notin> set (map component (channels r))"
    by (simp add: has_channel_def channels_recorded_all_def)
  have first: "add_channel r c = r\<lparr>channels := channels r @ [c]\<rparr>"
    using False by (rule add_channel_absent)
  show ?thesis
    unfolding first using list_index_absent [OF nmem]
    by (simp add: add_channel_def channel_index_def has_channel_def channels_recorded_all_def)
qed

lemma add_channel_stores: "c \<in> set (channels (add_channel r c))"
proof (cases "has_channel r (component c)")
  case True
  let ?n = "list_index (channels_recorded_all r) (component c)"
  from True have "component c \<in> set (map component (channels r))"
    by (simp add: has_channel_def channels_recorded_all_def)
  from list_index_first [OF this] have "?n < length (channels r)"
    by (simp add: channels_recorded_all_def)
  then show ?thesis
    using True by (simp add: add_channel_def channel_index_def set_update_memI)
next
  case False
  then show ?thesis by (simp add: add_channel_def channel_index_def)
qed

lemma add_run_present:
  assumes "run_id r = Some i" and "has_run s (Some i)"
  shows "\<exists>n < length (runs s). ld_keys (runs s) ! n = Some i
           \<and> (\<forall>j < n. ld_keys (runs s) ! j \<noteq> Some i)
           \<and> add_run upd s (RunObj r) =
               Return (s\<lparr>runs := (runs s)[n := (Some i, upd (snd (runs s ! n)) r)],
                         logger := logger s @
                           [(Warning, ''Station '' @ i @ '' already exists, updating metadata'')]\<rparr>)"
proof -
  from assms(2) have mem: "Some i \<in> set (map fst (runs s))"
    by (simp add: has_run_def run_list_def ld_keys_def)
  from setitem_first [OF mem] obtain n where n: "n < length (runs s)"
    "fst (runs s ! n) = Some i" "\<forall>j < n. fst (runs s ! j) \<noteq> Some i"
    "map_of (runs s) (Some i) = Some (snd (runs s ! n))"
    "\<forall>v. setitem (runs s) (Some i) v = (runs s)[n := (Some i, v)]"
    by blast
  have "add_run upd s (RunObj r) =
               Return (s\<lparr>runs := (runs s)[n := (Some i, upd (snd (runs s ! n)) r)],
                         logger := logger s @
                           [(Warning, ''Station '' @ i @ '' already exists, updating metadata'')]\<rparr>)"
    using assms n(4,5) by (simp add: add_run_def ld_getitem_def str_of_def)
  with n(1,2,3) show ?thesis
    by (intro exI [of _ n]) (simp add: ld_keys_def)
qed

lemma add_run_absent:
  assumes "\<not> has_run s (run_id r)"
  shows "add_run upd s (RunObj r) = Return (s\<lparr>runs := runs s @ [(run_id r, r)]\<rparr>)"
proof -
  from assms have "run_id r \<notin> set (map fst (runs s))"
    by (simp add: has_run_def run_list_def ld_keys_def)
  then have "setitem (runs s) (run_id r) r = runs s @ [(run_id r, r)]"
    by (rule setitem_absent)
  with assms show ?thesis
    by (simp add: add_run_def ld_append_setitem run_view_def)
qed

lemma add_run_stores:
  assumes "run_id r = Some i"
  shows "\<exists>v lg. add_run upd s (RunObj r) =
           Return (s\<lparr>runs := setitem (runs s) (Some i) v, logger := lg\<rparr>)
         \<and> (v = r \<or> (\<exists>old. v = upd old r))"
proof (cases "has_run s (Some i)")
  case True
  then have "Some i \<in> set (map fst (runs s))"
    by (simp add: has_run_def run_list_def ld_keys_def)
  then obtain old where "map_of (runs s) (Some i) = Some old"
    by (metis map_of_eq_None_iff not_Some_eq image_set)
  with True assms show ?thesis
    by (auto simp: add_run_def ld_getitem_def)
next
  case False
  with assms have "add_run upd s (RunObj r) = Return (s\<lparr>runs := setitem (runs s) (Some i) r, logger := logger s\<rparr>)"
    by (simp add: add_run_def ld_append_setitem run_view_def)
  then show ?thesis by blast
qed

lemma add_run_twice:
  assumes "run_id r = Some i" and "\<forall>a. upd (upd a r) r = upd a r" and "upd r r = r"
    and "add_run upd s (RunObj r) = Return s1"
  shows "\<exists>s2. add_run upd s1 (RunObj r) = Return s2 \<and> runs s2 = runs s1
           \<and> time_period s2 = time_period s1 \<and> station_id s2 = station_id s1"
proof -
  from add_run_stores [OF assms(1), of upd s] assms(4) obtain v lg where
    s1: "s1 = s\<lparr>runs := setitem (runs s) (Some i) v, logger := lg\<rparr>"
    and v: "v = r \<or> (\<exists>old. v = upd old r)"
    by auto
  from v assms(2,3) have fx: "upd v r = v" by auto
  have has: "has_run s1 (Some i)"
    using setitem_keys_set [of "runs s" "Some i" v]
    by (simp add: s1 has_run_def run_list_def ld_keys_def)
  have get: "ld_getitem (runs s1) (Some i) = Inr v"
    by (simp add: s1 ld_getitem_setitem)
  show ?thesis
    using assms(1) has get fx
    by (simp add: add_run_def s1 setitem_setitem)
qed

section \<open>C3: \<open>update_time_period\<close>\<close>

lemma py_min_Min: "xs \<noteq> [] \<Longrightarrow> py_min xs = Min (set xs)"
  by (cases xs) (simp_all add: py_min_def Min.set_eq_fold [symmetric])

lemma py_max_Max: "xs \<noteq> [] \<Longrightarrow> py_max xs = Max (set xs)"
  by (cases xs) (simp_all add: py_max_def Max.set_eq_fold [symmetric])

lemma station_utp_start:
  "tp_start (time_period (station_update_time_period s)) =
     (if station_starts s = [] then tp_start (time_period s)
      else if tp_start (time_period s) = sentinel \<or> py_min (station_starts s) < tp_start (time_period s)
      then py_min (station_starts s) else tp_start (time_period s))"
  by (simp add: station_update_time_period_def Let_def)

lemma station_utp_end:
  "tp_end (time_period (station_update_time_period s)) =
     (if station_ends s = [] then tp_end (time_period s)
      else if tp_end (time_period s) = sentinel \<or> tp_end (time_period s) < py_max (station_ends s)
      then py_max (station_ends s) else tp_end (time_period s))"
  by (simp add: station_update_time_period_def Let_def)

lemma station_utp_runs: "runs (station_update_time_period s) = runs s"
  by (simp add: station_update_time_period_def Let_def)

lemma station_utp_shape:
  "station_update_time_period s =
     s\<lparr>time_period := \<lparr>tp_start = tp_start (time_period (station_update_time_period s)),
                        tp_end = tp_end (time_period (station_update_time_period s))\<rparr>\<rparr>"
  by (simp add: station_update_time_period_def Let_def)

lemma station_utp_idem:
  "station_update_time_period (station_update_time_period s) = station_update_time_period s"
proof -
  let ?s' = "station_update_time_period s"
  have a: "tp_start (time_period (station_update_time_period ?s')) = tp_start (time_period ?s')"
    unfolding station_utp_start [of ?s'] station_utp_runs
    by (simp add: station_utp_start)
  have b: "tp_end (time_period (station_update_time_period ?s')) = tp_end (time_period ?s')"
    unfolding station_utp_end [of ?s'] station_utp_runs
    by (simp add: station_utp_end)
  show ?thesis
    by (subst station_utp_shape [of ?s']) (simp add: a b)
qed

lemma run_utp_start:
  "tp_start (time_period (run_update_time_period s)) =
     (if run_starts s = [] then tp_start (time_period s)
      else if tp_start (time_period s) = sentinel \<or> py_min (run_starts s) < tp_start (time_period s)
      then py_min (run_starts s) else tp_start (time_period s))"
  by (simp add: run_update_time_period_def Let_def)

lemma run_utp_end:
  "tp_end (time_period (run_update_time_period s)) =
     (if run_ends s = [] then tp_end (time_period s)
      else if tp_end (time_period s) = sentinel \<or> tp_end (time_period s) < py_max (run_ends s)
      then py_max (run_ends s) else tp_end (time_period s))"
  by (simp add: run_update_time_period_def Let_def)

lemma run_utp_channels: "channels (run_update_time_period s) = channels s"
  by (simp add: run_update_time_period_def Let_def)

lemma run_utp_shape:
  "run_update_time_period s =
     s\<lparr>time_period := \<lparr>tp_start = tp_start (time_period (run_update_time_period s)),
                        tp_end = tp_end (time_period (run_update_time_period s))\<rparr>\<rparr>"
  by (simp add: run_update_time_period_def Let_def)

lemma run_utp_idem:
  "run_update_time_period (run_update_time_period s) = run_update_time_period s"
proof -
  let ?s' = "run_update_time_period s"
  have a: "tp_start (time_period (run_update_time_period ?s')) = tp_start (time_period ?s')"
    unfolding run_utp_start [of ?s'] run_utp_channels
    by (simp add: run_utp_start)
  have b: "tp_end (time_period (run_update_time_period ?s')) = tp_end (time_period ?s')"
    unfolding run_utp_end [of ?s'] run_utp_channels
    by (simp add: run_utp_end)
  show ?thesis
    by (subst run_utp_shape [of ?s']) (simp add: a b)
qed

text \<open>
  C3: for every Station (and in the same way every Run) with at least one child,
  \<open>update_time_period\<close> sets the start to the minimum of the children's starts whenever
  the current start is the 1980 sentinel or later than that minimum, and the end to the
  maximum of the children's ends whenever the current end is the sentinel or earlier than
  that maximum; a bound that is set and already at least as wide is kept; the children
  are not touched, and a second call changes nothing.
\<close>

theorem update_time_period_widens:
  fixes s :: station and r :: run
  shows
  "(runs s \<noteq> [] \<longrightarrow>
      (tp_start (time_period s) = sentinel \<or> Min (set (station_starts s)) < tp_start (time_period s)
         \<longrightarrow> tp_start (time_period (station_update_time_period s)) = Min (set (station_starts s)))
    \<and> (tp_end (time_period s) = sentinel \<or> tp_end (time_period s) < Max (set (station_ends s))
         \<longrightarrow> tp_end (time_period (station_update_time_period s)) = Max (set (station_ends s)))
    \<and> (tp_start (time_period s) \<noteq> sentinel \<and> tp_start (time_period s) \<le> Min (set (station_starts s))
         \<longrightarrow> tp_start (time_period (station_update_time_period s)) = tp_start (time_period s))
    \<and> (tp_end (time_period s) \<noteq> sentinel \<and> Max (set (station_ends s)) \<le> tp_end (time_period s)
         \<longrightarrow> tp_end (time_period (station_update_time_period s)) = tp_end (time_period s)))
   \<and> runs (station_update_time_period s) = runs s
   \<and> station_update_time_period (station_update_time_period s) = station_update_time_period s
   \<and> (channels r \<noteq> [] \<longrightarrow>
      (tp_start (time_period r) = sentinel \<or> Min (set (run_starts r)) < tp_start (time_period r)
         \<longrightarrow> tp_start (time_period (run_update_time_period r)) = Min (set (run_starts r)))
    \<and> (tp_end (time_period r) = sentinel \<or> tp_end (time_period r) < Max (set (run_ends r))
         \<longrightarrow> tp_end (time_period (run_update_time_period r)) = Max (set (run_ends r)))
    \<and> (tp_start (time_period r) \<noteq> sentinel \<and> tp_start (time_period r) \<le> Min (set (run_starts r))
         \<longrightarrow> tp_start (time_period (run_update_time_period r)) = tp_start (time_period r))
    \<and> (tp_end (time_period r) \<noteq> sentinel \<and> Max (set (run_ends r)) \<le> tp_end (time_period r)
         \<longrightarrow> tp_end (time_period (run_update_time_period r)) = tp_end (time_period r)))
   \<and> channels (run_update_time_period r) = channels r
   \<and> run_update_time_period (run_update_time_period r) = run_update_time_period r"
proof -
  define m where "m = Min (set (station_starts s))"
  define M where "M = Max (set (station_ends s))"
  define rm where "rm = Min (set (run_starts r))"
  define rM where "rM = Max (set (run_ends r))"
  have st: "runs s \<noteq> [] \<Longrightarrow> py_min (station_starts s) = Min (set (station_starts s))"
    by (rule py_min_Min) (simp add: ld_values_def)
  have en: "runs s \<noteq> [] \<Longrightarrow> py_max (station_ends s) = Max (set (station_ends s))"
    by (rule py_max_Max) (simp add: ld_values_def)
  have rst: "channels r \<noteq> [] \<Longrightarrow> py_min (run_starts r) = Min (set (run_starts r))"
    by (rule py_min_Min) simp
  have ren: "channels r \<noteq> [] \<Longrightarrow> py_max (run_ends r) = Max (set (run_ends r))"
    by (rule py_max_Max) simp
  have A: "runs s \<noteq> [] \<longrightarrow>
      (tp_start (time_period s) = sentinel \<or> Min (set (station_starts s)) < tp_start (time_period s)
         \<longrightarrow> tp_start (time_period (station_update_time_period s)) = Min (set (station_starts s)))
    \<and> (tp_end (time_period s) = sentinel \<or> tp_end (time_period s) < Max (set (station_ends s))
         \<longrightarrow> tp_end (time_period (station_update_time_period s)) = Max (set (station_ends s)))
    \<and> (tp_start (time_period s) \<noteq> sentinel \<and> tp_start (time_period s) \<le> Min (set (station_starts s))
         \<longrightarrow> tp_start (time_period (station_update_time_period s)) = tp_start (time_period s))
    \<and> (tp_end (time_period s) \<noteq> sentinel \<and> Max (set (station_ends s)) \<le> tp_end (time_period s)
         \<longrightarrow> tp_end (time_period (station_update_time_period s)) = tp_end (time_period s))"
  proof
    assume ne: "runs s \<noteq> []"
    then have ne': "station_starts s \<noteq> []" "station_ends s \<noteq> []"
      by (simp_all add: ld_values_def)
    show "(tp_start (time_period s) = sentinel \<or> Min (set (station_starts s)) < tp_start (time_period s)
         \<longrightarrow> tp_start (time_period (station_update_time_period s)) = Min (set (station_starts s)))
    \<and> (tp_end (time_period s) = sentinel \<or> tp_end (time_period s) < Max (set (station_ends s))
         \<longrightarrow> tp_end (time_period (station_update_time_period s)) = Max (set (station_ends s)))
    \<and> (tp_start (time_period s) \<noteq> sentinel \<and> tp_start (time_period s) \<le> Min (set (station_starts s))
         \<longrightarrow> tp_start (time_period (station_update_time_period s)) = tp_start (time_period s))
    \<and> (tp_end (time_period s) \<noteq> sentinel \<and> Max (set (station_ends s)) \<le> tp_end (time_period s)
         \<longrightarrow> tp_end (time_period (station_update_time_period s)) = tp_end (time_period s))"
      unfolding station_utp_start station_utp_end st [OF ne] en [OF ne]
        m_def [symmetric] M_def [symmetric]
      using ne' by auto
  qed
  have B: "channels r \<noteq> [] \<longrightarrow>
      (tp_start (time_period r) = sentinel \<or> Min (set (run_starts r)) < tp_start (time_period r)
         \<longrightarrow> tp_start (time_period (run_update_time_period r)) = Min (set (run_starts r)))
    \<and> (tp_end (time_period r) = sentinel \<or> tp_end (time_period r) < Max (set (run_ends r))
         \<longrightarrow> tp_end (time_period (run_update_time_period r)) = Max (set (run_ends r)))
    \<and> (tp_start (time_period r) \<noteq> sentinel \<and> tp_start (time_period r) \<le> Min (set (run_starts r))
         \<longrightarrow> tp_start (time_period (run_update_time_period r)) = tp_start (time_period r))
    \<and> (tp_end (time_period r) \<noteq> sentinel \<and> Max (set (run_ends r)) \<le> tp_end (time_period r)
         \<longrightarrow> tp_end (time_period (run_update_time_period r)) = tp_end (time_period r))"
  proof
    assume ne: "channels r \<noteq> []"
    show "(tp_start (time_period r) = sentinel \<or> Min (set (run_starts r)) < tp_start (time_period r)
         \<longrightarrow> tp_start (time_period (run_update_time_period r)) = Min (set (run_starts r)))
    \<and> (tp_end (time_period r) = sentinel \<or> tp_end (time_period r) < Max (set (run_ends r))
         \<longrightarrow> tp_end (time_period (run_update_time_period r)) = Max (set (run_ends r)))
    \<and> (tp_start (time_period r) \<noteq> sentinel \<and> tp_start (time_period r) \<le> Min (set (run_starts r))
         \<longrightarrow> tp_start (time_period (run_update_time_period r)) = tp_start (time_period r))
    \<and> (tp_end (time_period r) \<noteq> sentinel \<and> Max (set (run_ends r)) \<le> tp_end (time_period r)
         \<longrightarrow> tp_end (time_period (run_update_time_period r)) = tp_end (time_period r))"
      unfolding run_utp_start run_utp_end rst [OF ne] ren [OF ne]
        rm_def [symmetric] rM_def [symmetric]
      using ne by auto
  qed
  from A B station_utp_runs station_utp_idem run_utp_channels run_utp_idem
  show ?thesis by blast
qed

theorem update_time_period_widens_witness:
  "runs (Station_init\<lparr>runs :=
       [(Some ''a'', Run_init\<lparr>time_period :=
           \<lparr>tp_start = ''2020-01-01T00:00:00+00:00'', tp_end = ''2020-01-02T00:00:00+00:00''\<rparr>\<rparr>),
        (Some ''b'', Run_init\<lparr>time_period :=
           \<lparr>tp_start = ''2020-01-03T00:00:00+00:00'', tp_end = ''2020-01-04T00:00:00+00:00''\<rparr>\<rparr>)]\<rparr>)
     \<noteq> []
   \<and> tp_start (time_period Station_init) = sentinel
   \<and> tp_end (time_period Station_init) = sentinel
   \<and> time_period (station_update_time_period (Station_init\<lparr>runs :=
       [(Some ''a'', Run_init\<lparr>time_period :=
           \<lparr>tp_start = ''2020-01-01T00:00:00+00:00'', tp_end = ''2020-01-02T00:00:00+00:00''\<rparr>\<rparr>),
        (Some ''b'', Run_init\<lparr>time_period :=
           \<lparr>tp_start = ''2020-01-03T00:00:00+00:00'', tp_end = ''2020-01-04T00:00:00+00:00''\<rparr>\<rparr>)]\<rparr>))
     = \<lparr>tp_start = ''2020-01-01T00:00:00+00:00'', tp_end = ''2020-01-04T00:00:00+00:00''\<rparr>
   \<and> time_period (run_update_time_period (Run_init\<lparr>time_period :=
           \<lparr>tp_start = ''2020-01-01T00:00:00+00:00'', tp_end = ''2020-01-04T00:00:00+00:00''\<rparr>,
         channels := [(Channel_init Electric)\<lparr>time_period :=
           \<lparr>tp_start = ''2020-01-02T00:00:00+00:00'', tp_end = ''2020-01-03T00:00:00+00:00''\<rparr>\<rparr>]\<rparr>))
     = \<lparr>tp_start = ''2020-01-01T00:00:00+00:00'', tp_end = ''2020-01-04T00:00:00+00:00''\<rparr>"
  using update_time_period_widens [of
      "Station_init\<lparr>runs :=
       [(Some ''a'', Run_init\<lparr>time_period :=
           \<lparr>tp_start = ''2020-01-01T00:00:00+00:00'', tp_end = ''2020-01-02T00:00:00+00:00''\<rparr>\<rparr>),
        (Some ''b'', Run_init\<lparr>time_period :=
           \<lparr>tp_start = ''2020-01-03T00:00:00+00:00'', tp_end = ''2020-01-04T00:00:00+00:00''\<rparr>\<rparr>)]\<rparr>"
      "Run_init\<lparr>time_period :=
           \<lparr>tp_start = ''2020-01-01T00:00:00+00:00'', tp_end = ''2020-01-04T00:00:00+00:00''\<rparr>,
         channels := [(Channel_init Electric)\<lparr>time_period :=
           \<lparr>tp_start = ''2020-01-02T00:00:00+00:00'', tp_end = ''2020-01-03T00:00:00+00:00''\<rparr>\<rparr>]\<rparr>"]
  by (simp add: Station_init_def Run_init_def Channel_init_def TimePeriod_init_def sentinel_def
      ld_values_def)

section \<open>C4: \<open>add_run\<close> and \<open>add_channel\<close>\<close>

text \<open>
  C4, as stated, is false for \<open>Run.add_channel\<close>: a channel whose component is already in
  the run replaces the stored channel object wholesale (here the stored dipole length of
  100 is gone), and nothing is logged.
\<close>

theorem add_channel_replaces_counterexample:
  "add_channel
     (Run_init\<lparr>channels :=
        [(Channel_init Electric)\<lparr>component := Some ''ex'', dipole_length := Some 100\<rparr>]\<rparr>)
     ((Channel_init Electric)\<lparr>component := Some ''ex''\<rparr>)
   = Run_init\<lparr>channels := [(Channel_init Electric)\<lparr>component := Some ''ex''\<rparr>]\<rparr>
   \<and> logger (add_channel
     (Run_init\<lparr>channels :=
        [(Channel_init Electric)\<lparr>component := Some ''ex'', dipole_length := Some 100\<rparr>]\<rparr>)
     ((Channel_init Electric)\<lparr>component := Some ''ex''\<rparr>)) = []"
  by (simp add: add_channel_def channel_index_def has_channel_def channels_recorded_all_def
      Run_init_def Channel_init_def)

text \<open>
  C4 (amended). \<open>Station.add_run\<close>: when a run with the same non-null id is already in
  the station, the stored run is updated in place by \<open>Base.update\<close> with the new run, at
  its position, and a warning is logged; otherwise the run is appended under its id.
  \<open>Run.add_channel\<close>: when a channel with the same component is already in the run, the
  stored channel at that index is replaced by the new channel object, with no diagnostic;
  otherwise the channel is appended. Adding the same channel twice is the same as adding
  it once, and adding the same run twice leaves the runs, the time period and the id of
  the station as they were after the first call, provided that updating with the same
  run again changes nothing.
\<close>

theorem add_child_merge_or_append:
  "(run_id r = Some i \<and> has_run s (Some i) \<longrightarrow>
      (\<exists>n < length (runs s). ld_keys (runs s) ! n = Some i
         \<and> add_run upd s (RunObj r) =
             Return (s\<lparr>runs := (runs s)[n := (Some i, upd (snd (runs s ! n)) r)],
                       logger := logger s @
                         [(Warning, ''Station '' @ i @ '' already exists, updating metadata'')]\<rparr>)))
   \<and> (\<not> has_run s (run_id r) \<longrightarrow>
        add_run upd s (RunObj r) = Return (s\<lparr>runs := runs s @ [(run_id r, r)]\<rparr>))
   \<and> (has_channel rn (component c) \<longrightarrow>
        (\<exists>n < length (channels rn). component (channels rn ! n) = component c
           \<and> add_channel rn c = rn\<lparr>channels := (channels rn)[n := c]\<rparr>))
   \<and> (\<not> has_channel rn (component c) \<longrightarrow>
        add_channel rn c = rn\<lparr>channels := channels rn @ [c]\<rparr>)
   \<and> add_channel (add_channel rn c) c = add_channel rn c
   \<and> (run_id r = Some i \<and> (\<forall>a. upd (upd a r) r = upd a r) \<and> upd r r = r \<longrightarrow>
        (\<exists>s1 s2. add_run upd s (RunObj r) = Return s1
           \<and> add_run upd s1 (RunObj r) = Return s2
           \<and> runs s2 = runs s1 \<and> time_period s2 = time_period s1
           \<and> station_id s2 = station_id s1))"
proof -
  have A: "run_id r = Some i \<and> has_run s (Some i) \<longrightarrow>
      (\<exists>n < length (runs s). ld_keys (runs s) ! n = Some i
         \<and> add_run upd s (RunObj r) =
             Return (s\<lparr>runs := (runs s)[n := (Some i, upd (snd (runs s ! n)) r)],
                       logger := logger s @
                         [(Warning, ''Station '' @ i @ '' already exists, updating metadata'')]\<rparr>))"
  proof
    assume h: "run_id r = Some i \<and> has_run s (Some i)"
    from add_run_present [of r i s upd] h obtain n where
      "n < length (runs s)" "ld_keys (runs s) ! n = Some i"
      "add_run upd s (RunObj r) =
             Return (s\<lparr>runs := (runs s)[n := (Some i, upd (snd (runs s ! n)) r)],
                       logger := logger s @
                         [(Warning, ''Station '' @ i @ '' already exists, updating metadata'')]\<rparr>)"
      by blast
    then show "\<exists>n < length (runs s). ld_keys (runs s) ! n = Some i
         \<and> add_run upd s (RunObj r) =
             Return (s\<lparr>runs := (runs s)[n := (Some i, upd (snd (runs s ! n)) r)],
                       logger := logger s @
                         [(Warning, ''Station '' @ i @ '' already exists, updating metadata'')]\<rparr>)"
      by blast
  qed
  have B: "\<not> has_run s (run_id r) \<longrightarrow>
        add_run upd s (RunObj r) = Return (s\<lparr>runs := runs s @ [(run_id r, r)]\<rparr>)"
    using add_run_absent by blast
  have C: "has_channel rn (component c) \<longrightarrow>
        (\<exists>n < length (channels rn). component (channels rn ! n) = component c
           \<and> add_channel rn c = rn\<lparr>channels := (channels rn)[n := c]\<rparr>)"
    using add_channel_present [of rn c] by blast
  have D: "\<not> has_channel rn (component c) \<longrightarrow>
        add_channel rn c = rn\<lparr>channels := channels rn @ [c]\<rparr>"
    using add_channel_absent by blast
  have E: "add_channel (add_channel rn c) c = add_channel rn c"
    by (rule add_channel_twice)
  have F: "run_id r = Some i \<and> (\<forall>a. upd (upd a r) r = upd a r) \<and> upd r r = r \<longrightarrow>
        (\<exists>s1 s2. add_run upd s (RunObj r) = Return s1
           \<and> add_run upd s1 (RunObj r) = Return s2
           \<and> runs s2 = runs s1 \<and> time_period s2 = time_period s1
           \<and> station_id s2 = station_id s1)"
  proof
    assume h: "run_id r = Some i \<and> (\<forall>a. upd (upd a r) r = upd a r) \<and> upd r r = r"
    then have rid: "run_id r = Some i" and u1: "\<forall>a. upd (upd a r) r = upd a r"
      and u2: "upd r r = r"
      by simp_all
    from add_run_stores [OF rid, of upd s] obtain s1 where
      s1: "add_run upd s (RunObj r) = Return s1"
      by blast
    from add_run_twice [OF rid u1 u2 s1] obtain s2 where
      "add_run upd s1 (RunObj r) = Return s2" "runs s2 = runs s1"
      "time_period s2 = time_period s1" "station_id s2 = station_id s1"
      by blast
    with s1 show "\<exists>s1 s2. add_run upd s (RunObj r) = Return s1
           \<and> add_run upd s1 (RunObj r) = Return s2
           \<and> runs s2 = runs s1 \<and> time_period s2 = time_period s1
           \<and> station_id s2 = station_id s1"
      by blast
  qed
  from A B C D E F show ?thesis by (intro conjI)
qed

theorem add_child_merge_or_append_witness:
  "has_run (Station_init\<lparr>runs := [(Some ''a'', Run_init\<lparr>run_id := Some ''a''\<rparr>)]\<rparr>) (Some ''a'')
   \<and> add_run (\<lambda>old new. new\<lparr>channels := channels old, logger := logger old\<rparr>)
       (Station_init\<lparr>runs := [(Some ''a'', Run_init\<lparr>run_id := Some ''a''\<rparr>)]\<rparr>)
       (RunObj (Run_init\<lparr>run_id := Some ''a'', sample_rate := Some 8\<rparr>))
     = Return (Station_init\<lparr>runs := [(Some ''a'', Run_init\<lparr>run_id := Some ''a'', sample_rate := Some 8\<rparr>)],
         logger := [(Warning, ''Station a already exists, updating metadata'')]\<rparr>)
   \<and> \<not> has_run Station_init (Some ''a'')
   \<and> add_run (\<lambda>old new. new\<lparr>channels := channels old, logger := logger old\<rparr>)
       Station_init (RunObj (Run_init\<lparr>run_id := Some ''a'', sample_rate := Some 8\<rparr>))
     = Return (Station_init\<lparr>runs := [(Some ''a'', Run_init\<lparr>run_id := Some ''a'', sample_rate := Some 8\<rparr>)]\<rparr>)
   \<and> has_channel (Run_init\<lparr>channels := [(Channel_init Magnetic)\<lparr>component := Some ''hx''\<rparr>]\<rparr>)
        (Some ''hx'')
   \<and> add_channel (Run_init\<lparr>channels := [(Channel_init Magnetic)\<lparr>component := Some ''hx''\<rparr>]\<rparr>)
        ((Channel_init Magnetic)\<lparr>component := Some ''hx'', measurement_azimuth := Some 90\<rparr>)
     = Run_init\<lparr>channels :=
         [(Channel_init Magnetic)\<lparr>component := Some ''hx'', measurement_azimuth := Some 90\<rparr>]\<rparr>
   \<and> \<not> has_channel Run_init (Some ''hx'')
   \<and> add_channel Run_init ((Channel_init Magnetic)\<lparr>component := Some ''hx''\<rparr>)
     = Run_init\<lparr>channels := [(Channel_init Magnetic)\<lparr>component := Some ''hx''\<rparr>]\<rparr>"
  using
    add_child_merge_or_append [where r = "Run_init\<lparr>run_id := Some ''a'', sample_rate := Some 8\<rparr>"
      and i = "''a''" and upd = "\<lambda>old new. new\<lparr>channels := channels old, logger := logger old\<rparr>"
      and s = "Station_init\<lparr>runs := [(Some ''a'', Run_init\<lparr>run_id := Some ''a''\<rparr>)]\<rparr>"
      and rn = "Run_init\<lparr>channels := [(Channel_init Magnetic)\<lparr>component := Some ''hx''\<rparr>]\<rparr>"
      and c = "(Channel_init Magnetic)\<lparr>component := Some ''hx'', measurement_azimuth := Some 90\<rparr>"]
    add_child_merge_or_append [where r = "Run_init\<lparr>run_id := Some ''a'', sample_rate := Some 8\<rparr>"
      and i = "''a''" and upd = "\<lambda>old new. new\<lparr>channels := channels old, logger := logger old\<rparr>"
      and s = "Station_init"
      and rn = "Run_init"
      and c = "(Channel_init Magnetic)\<lparr>component := Some ''hx''\<rparr>"]
  by (simp add: has_run_def run_list_def ld_keys_def has_channel_def channels_recorded_all_def
      Station_init_def Run_init_def Channel_init_def)

section \<open>C5: merging two entities\<close>

lemma ld_extend_keys:
  "distinct (map fst b) \<Longrightarrow>
     map fst (ld_extend a b) = map fst a @ filter (\<lambda>k. k \<notin> set (map fst a)) (map fst b)"
proof (induction b arbitrary: a)
  case Nil
  then show ?case by simp
next
  case (Cons p b)
  obtain k v where p: "p = (k, v)" by (cases p)
  from Cons.prems p have kb: "k \<notin> set (map fst b)" and db: "distinct (map fst b)"
    by simp_all
  have IH: "map fst (ld_extend (setitem a k v) b) =
      map fst (setitem a k v) @ filter (\<lambda>k'. k' \<notin> set (map fst (setitem a k v))) (map fst b)"
    by (rule Cons.IH [OF db])
  show ?case
  proof (cases "k \<in> set (map fst a)")
    case True
    have "set (map fst (setitem a k v)) = set (map fst a)"
      using True by (simp add: setitem_keys_present)
    with True IH p show ?thesis
      by (simp add: setitem_keys_present)
  next
    case False
    have s: "setitem a k v = a @ [(k, v)]"
      using False by (rule setitem_absent)
    have "filter (\<lambda>k'. k' \<notin> set (map fst (a @ [(k, v)]))) (map fst b)
            = filter (\<lambda>k'. k' \<notin> set (map fst a)) (map fst b)"
      using kb by (intro filter_cong) auto
    with False IH p s show ?thesis by simp
  qed
qed

lemma ld_extend_distinct:
  "distinct (map fst a) \<Longrightarrow> distinct (map fst (ld_extend a b))"
proof (induction b arbitrary: a)
  case Nil
  then show ?case by simp
next
  case (Cons p b)
  obtain k v where p: "p = (k, v)" by (cases p)
  from Cons.prems have "distinct (map fst (setitem a k v))"
    by (rule setitem_distinct)
  from Cons.IH [OF this] p show ?case by simp
qed

lemma ld_extend_map_of:
  "distinct (map fst b) \<Longrightarrow> map_of (ld_extend a b) = map_of a ++ map_of b"
proof (induction b arbitrary: a)
  case Nil
  then show ?case by simp
next
  case (Cons p b)
  obtain k v where p: "p = (k, v)" by (cases p)
  from Cons.prems p have kb: "map_of b k = None" and db: "distinct (map fst b)"
    by (simp_all add: map_of_eq_None_iff)
  have X: "map_of (ld_extend (setitem a k v) b) = map_of (setitem a k v) ++ map_of b"
    by (rule Cons.IH [OF db])
  have Y: "map_of (setitem a k v) ++ map_of b = map_of a ++ map_of ((k, v) # b)"
  proof (rule ext)
    fix x
    show "(map_of (setitem a k v) ++ map_of b) x = (map_of a ++ map_of ((k, v) # b)) x"
      using kb by (cases "x = k") (simp_all add: setitem_map_of map_add_def split: option.splits)
  qed
  show ?case
    unfolding p ld_extend.simps by (rule trans [OF X Y])
qed

text \<open>
  C5, as stated, is false for \<open>Run + Run\<close>: \<open>self.channels\<close> is a plain list, so the
  channels of \<open>b\<close> are concatenated and a colliding component is kept twice.
\<close>

theorem run_add_duplicates_counterexample:
  "run_add
     (Run_init\<lparr>channels := [(Channel_init Electric)\<lparr>component := Some ''ex''\<rparr>]\<rparr>)
     (RunObj (Run_init\<lparr>channels :=
        [(Channel_init Electric)\<lparr>component := Some ''ex'', dipole_length := Some 50\<rparr>]\<rparr>))
   = Return (Run_init\<lparr>channels :=
       [(Channel_init Electric)\<lparr>component := Some ''ex''\<rparr>,
        (Channel_init Electric)\<lparr>component := Some ''ex'', dipole_length := Some 50\<rparr>]\<rparr>)
   \<and> channels_recorded_all (Run_init\<lparr>channels :=
       [(Channel_init Electric)\<lparr>component := Some ''ex''\<rparr>,
        (Channel_init Electric)\<lparr>component := Some ''ex'', dipole_length := Some 50\<rparr>]\<rparr>)
     = [Some ''ex'', Some ''ex'']"
  by (simp add: run_add_def channels_recorded_all_def Run_init_def Channel_init_def)

text \<open>
  C5 (amended). \<open>Station + Station\<close>: \<open>a\<close> absorbs the runs of \<open>b\<close> through
  \<open>ListDict.extend\<close>; a run of \<open>b\<close> whose key is already in \<open>a\<close> overwrites the entry of \<open>a\<close>
  at its position, the other runs of \<open>b\<close> follow in their order, the result has no
  duplicate key, and the operation returns \<open>a\<close> with its other fields unchanged.
  \<open>Run + Run\<close>: the channel list of \<open>b\<close> is concatenated to that of \<open>a\<close>, colliding
  components included, and \<open>a\<close> is returned. In both cases an operand of another type
  fails with \<open>TypeError\<close> and leaves the children of \<open>a\<close> unchanged.
\<close>

theorem merge_entities:
  fixes a b :: station and ra rb :: run
  shows
  "(distinct (ld_keys (runs a)) \<and> distinct (ld_keys (runs b)) \<longrightarrow>
      (\<exists>a'. station_add a (StationObj b) = Return a'
         \<and> distinct (ld_keys (runs a'))
         \<and> ld_keys (runs a') =
             ld_keys (runs a) @ filter (\<lambda>k. k \<notin> set (ld_keys (runs a))) (ld_keys (runs b))
         \<and> (\<forall>k. map_of (runs a') k =
               (case map_of (runs b) k of Some v \<Rightarrow> Some v | None \<Rightarrow> map_of (runs a) k))
         \<and> station_id a' = station_id a \<and> time_period a' = time_period a
         \<and> logger a' = logger a))
   \<and> ((\<forall>x. other \<noteq> StationObj x) \<longrightarrow>
        (\<exists>a'. station_add a other = Raise TypeError a' \<and> runs a' = runs a))
   \<and> run_add ra (RunObj rb) = Return (ra\<lparr>channels := channels ra @ channels rb\<rparr>)
   \<and> ((\<forall>x. other \<noteq> RunObj x) \<longrightarrow>
        (\<exists>ra'. run_add ra other = Raise TypeError ra' \<and> channels ra' = channels ra))"
proof -
  have A: "\<exists>a'. station_add a (StationObj b) = Return a'
         \<and> distinct (ld_keys (runs a'))
         \<and> ld_keys (runs a') =
             ld_keys (runs a) @ filter (\<lambda>k. k \<notin> set (ld_keys (runs a))) (ld_keys (runs b))
         \<and> (\<forall>k. map_of (runs a') k =
               (case map_of (runs b) k of Some v \<Rightarrow> Some v | None \<Rightarrow> map_of (runs a) k))
         \<and> station_id a' = station_id a \<and> time_period a' = time_period a
         \<and> logger a' = logger a"
    if d: "distinct (ld_keys (runs a))" "distinct (ld_keys (runs b))"
  proof -
    let ?a' = "a\<lparr>runs := ld_extend (runs a) (runs b)\<rparr>"
    have 1: "station_add a (StationObj b) = Return ?a'"
      by (simp add: station_add_def)
    have 2: "distinct (ld_keys (runs ?a'))"
      using d(1) by (simp add: ld_keys_def ld_extend_distinct)
    have 3: "ld_keys (runs ?a') =
             ld_keys (runs a) @ filter (\<lambda>k. k \<notin> set (ld_keys (runs a))) (ld_keys (runs b))"
      using d(2) ld_extend_keys [of "runs b" "runs a"] by (simp add: ld_keys_def)
    have 4: "\<forall>k. map_of (runs ?a') k =
               (case map_of (runs b) k of Some v \<Rightarrow> Some v | None \<Rightarrow> map_of (runs a) k)"
      using d(2) ld_extend_map_of [of "runs b" "runs a"]
      by (simp add: ld_keys_def map_add_def)
    from 1 2 3 4 show ?thesis by (intro exI [of _ ?a']) simp
  qed
  have B: "\<exists>a'. station_add a other = Raise TypeError a' \<and> runs a' = runs a"
    if "\<forall>x. other \<noteq> StationObj x"
    using that by (cases other) (simp_all add: station_add_def)
  have C: "run_add ra (RunObj rb) = Return (ra\<lparr>channels := channels ra @ channels rb\<rparr>)"
    by (simp add: run_add_def)
  have D: "\<exists>ra'. run_add ra other = Raise TypeError ra' \<and> channels ra' = channels ra"
    if "\<forall>x. other \<noteq> RunObj x"
    using that by (cases other) (simp_all add: run_add_def)
  from A B C D show ?thesis by blast
qed

theorem merge_entities_witness:
  "distinct (ld_keys [(Some ''a'', Run_init\<lparr>run_id := Some ''a''\<rparr>),
                      (Some ''b'', Run_init\<lparr>run_id := Some ''b''\<rparr>)])
   \<and> distinct (ld_keys [(Some ''b'', Run_init\<lparr>run_id := Some ''b'', sample_rate := Some 8\<rparr>),
                        (Some ''c'', Run_init\<lparr>run_id := Some ''c''\<rparr>)])
   \<and> station_add
        (Station_init\<lparr>runs := [(Some ''a'', Run_init\<lparr>run_id := Some ''a''\<rparr>),
                                (Some ''b'', Run_init\<lparr>run_id := Some ''b''\<rparr>)]\<rparr>)
        (StationObj (Station_init\<lparr>runs :=
           [(Some ''b'', Run_init\<lparr>run_id := Some ''b'', sample_rate := Some 8\<rparr>),
            (Some ''c'', Run_init\<lparr>run_id := Some ''c''\<rparr>)]\<rparr>))
      = Return (Station_init\<lparr>runs :=
           [(Some ''a'', Run_init\<lparr>run_id := Some ''a''\<rparr>),
            (Some ''b'', Run_init\<lparr>run_id := Some ''b'', sample_rate := Some 8\<rparr>),
            (Some ''c'', Run_init\<lparr>run_id := Some ''c''\<rparr>)]\<rparr>)
   \<and> (\<exists>a'. station_add Station_init (IntObj 10) = Raise TypeError a' \<and> runs a' = [])
   \<and> (\<exists>r'. run_add Run_init (IntObj 10) = Raise TypeError r' \<and> channels r' = [])"
  using merge_entities [where a = "Station_init\<lparr>runs := [(Some ''a'', Run_init\<lparr>run_id := Some ''a''\<rparr>),
                                (Some ''b'', Run_init\<lparr>run_id := Some ''b''\<rparr>)]\<rparr>"
      and b = "Station_init\<lparr>runs :=
           [(Some ''b'', Run_init\<lparr>run_id := Some ''b'', sample_rate := Some 8\<rparr>),
            (Some ''c'', Run_init\<lparr>run_id := Some ''c''\<rparr>)]\<rparr>"
      and other = "IntObj 10" and ra = Run_init and rb = Run_init]
    merge_entities [where a = Station_init and b = Station_init
      and other = "IntObj 10" and ra = Run_init and rb = Run_init]
  by (simp add: ld_keys_def station_add_def Station_init_def Run_init_def)

section \<open>C8: the named channel accessors\<close>

lemma lower_EX: "lower ''EX'' = ''ex''"
  by (simp add: lower_def lower_char_def)

lemma lower_ex: "lower ''ex'' = ''ex''"
  by (simp add: lower_def lower_char_def)

lemma named_setter_ok:
  assumes "ch_class c = cls" and "component c = Some s" and "lower s = name"
  shows "named_setter cls name r (ChannelObj c) = Return (add_channel r c)"
  using assms by (simp add: named_setter_def)

lemma named_setter_unset:
  assumes "ch_class c = cls" and "component c = None"
  shows "\<exists>r'. named_setter cls name r (ChannelObj c) = Return r'
           \<and> c \<in> set (channels r')
           \<and> channels r' = channels (add_channel r c)"
proof -
  let ?r = "log_to Debug (''assuming initial empty '' @ class_name cls @ '' object'') r"
  have "named_setter cls name r (ChannelObj c) = Return (add_channel ?r c)"
    using assms by (simp add: named_setter_def)
  moreover have "channels (add_channel ?r c) = channels (add_channel r c)"
    by (simp add: add_channel_def channel_index_def has_channel_def channels_recorded_all_def
        log_to_def split: option.splits)
  ultimately show ?thesis
    using add_channel_stores [of c ?r] by simp
qed

lemma named_setter_mismatch:
  assumes "ch_class c \<noteq> cls \<or> (\<exists>s. component c = Some s \<and> lower s \<noteq> name)"
  shows "\<exists>r'. named_setter cls name r (ChannelObj c) = Raise ValueError r'
           \<and> channels r' = channels r"
  using assms by (auto simp: named_setter_def log_to_def)

lemma temperature_setter_ok:
  assumes "ch_class c = Auxiliary" and "component c = Some s" and "lower s = ''temperature''"
  shows "temperature_setter r (ChannelObj c) = Return (add_channel r c)"
  using assms by (simp add: temperature_setter_def)

lemma temperature_setter_mismatch:
  assumes "ch_class c \<noteq> Auxiliary \<or> (\<exists>s. component c = Some s \<and> lower s \<noteq> ''temperature'')"
  shows "\<exists>r'. temperature_setter r (ChannelObj c) = Raise ValueError r'
           \<and> channels r' = channels r"
  using assms by (auto simp: temperature_setter_def log_to_def)

text \<open>
  What the six setters do with a channel object: a channel of the accessor's class whose
  component equals the accessor's name case-insensitively is stored; for \<open>ex\<close>, \<open>ey\<close>,
  \<open>hx\<close>, \<open>hy\<close> and \<open>hz\<close> a channel of the accessor's class with an unset component is
  stored too; a channel of another class, or one whose component is a different name, is
  refused with \<open>ValueError\<close> and the channel list stays as it was.
\<close>

lemma named_accessor_assignment:
  "((ch_class c = accessor_class acc \<and> (\<exists>s. component c = Some s \<and> lower s = accessor_name acc))
      \<longrightarrow> assign acc r (ChannelObj c) = Return (add_channel r c)
          \<and> c \<in> set (channels (add_channel r c)))
   \<and> ((acc \<noteq> Temperature \<and> ch_class c = accessor_class acc \<and> component c = None)
      \<longrightarrow> (\<exists>r'. assign acc r (ChannelObj c) = Return r'
             \<and> c \<in> set (channels r') \<and> channels r' = channels (add_channel r c)))
   \<and> ((ch_class c \<noteq> accessor_class acc
         \<or> (\<exists>s. component c = Some s \<and> lower s \<noteq> accessor_name acc))
      \<longrightarrow> (\<exists>r'. assign acc r (ChannelObj c) = Raise ValueError r'
             \<and> channels r' = channels r))"
proof (intro conjI impI)
  assume "ch_class c = accessor_class acc \<and> (\<exists>s. component c = Some s \<and> lower s = accessor_name acc)"
  then show "assign acc r (ChannelObj c) = Return (add_channel r c)"
    by (cases acc)
       (auto simp: ex_setter_def ey_setter_def hx_setter_def hy_setter_def hz_setter_def
          named_setter_ok temperature_setter_ok)
next
  show "c \<in> set (channels (add_channel r c))"
    by (rule add_channel_stores)
next
  assume "acc \<noteq> Temperature \<and> ch_class c = accessor_class acc \<and> component c = None"
  then show "\<exists>r'. assign acc r (ChannelObj c) = Return r'
             \<and> c \<in> set (channels r') \<and> channels r' = channels (add_channel r c)"
    by (cases acc)
       (simp_all add: ex_setter_def ey_setter_def hx_setter_def hy_setter_def hz_setter_def
          named_setter_unset)
next
  assume "ch_class c \<noteq> accessor_class acc
         \<or> (\<exists>s. component c = Some s \<and> lower s \<noteq> accessor_name acc)"
  then show "\<exists>r'. assign acc r (ChannelObj c) = Raise ValueError r' \<and> channels r' = channels r"
    by (cases acc)
       (simp_all add: ex_setter_def ey_setter_def hx_setter_def hy_setter_def hz_setter_def
          named_setter_mismatch temperature_setter_mismatch)
qed

lemma named_accessor_assignment_example:
  "lower ''EX'' = accessor_name Ex
   \<and> assign Ex Run_init (ChannelObj ((Channel_init Electric)\<lparr>component := Some ''EX''\<rparr>))
     = Return (Run_init\<lparr>channels := [(Channel_init Electric)\<lparr>component := Some ''EX''\<rparr>]\<rparr>)
   \<and> (\<exists>r'. assign Hx Run_init (ChannelObj (Channel_init Magnetic)) = Return r'
          \<and> channels r' = [Channel_init Magnetic])
   \<and> lower ''ex'' \<noteq> accessor_name Ey
   \<and> (\<exists>r'. assign Ey Run_init (ChannelObj ((Channel_init Electric)\<lparr>component := Some ''ex''\<rparr>))
            = Raise ValueError r' \<and> channels r' = [])"
  using
    named_accessor_assignment [where acc = Ex and r = Run_init
      and c = "(Channel_init Electric)\<lparr>component := Some ''EX''\<rparr>"]
    named_accessor_assignment [where acc = Hx and r = Run_init and c = "Channel_init Magnetic"]
    named_accessor_assignment [where acc = Ey and r = Run_init
      and c = "(Channel_init Electric)\<lparr>component := Some ''ex''\<rparr>"]
  by (auto simp: lower_def lower_char_def add_channel_def channel_index_def has_channel_def
      channels_recorded_all_def Run_init_def Channel_init_def)

text \<open>
  C8 fails on the code for the \<open>temperature\<close> accessor: the claim lets a channel with an
  unset component through every named accessor, and the setters of \<open>ex\<close>, \<open>ey\<close>, \<open>hx\<close>,
  \<open>hy\<close> and \<open>hz\<close> do so, but the \<open>temperature\<close> setter calls \<open>value.component.lower()\<close>
  without their test for \<open>None\<close>: assigning a fresh \<open>Auxiliary()\<close> raises
  \<open>AttributeError\<close> and stores nothing.
\<close>

theorem temperature_unset_component_raises:
  "assign Temperature Run_init (ChannelObj (Channel_init Auxiliary))
     = Raise AttributeError Run_init"
  by (simp add: temperature_setter_def Channel_init_def)

section \<open>C2 and C9: the derived tags\<close>

lemma then_do_Inr: "then_do (Inr x) f = f x"
  by (simp add: then_do_def)

lemma estimate_variance:
  "dict_get estimates_dict ''variance'' =
     Inr \<lparr>est_name = ''VAR'', est_type = ''complex'', est_description = ''Variance'',
        est_external_url = ''http://www.iris.edu/dms/products/emtf/variance.html'',
        est_intention = ''error estimate'', est_tag = ''variance''\<rparr>"
  by (simp add: dict_get_def estimates_dict_def)

lemma estimate_inverse_signal_power:
  "dict_get estimates_dict ''inverse_signal_power'' =
     Inr \<lparr>est_name = ''INVSIGCOV'', est_type = ''complex'',
        est_description = ''Inverse Coherent Signal Power Matrix (S)'',
        est_external_url =
          ''http://www.iris.edu/dms/products/emtf/inverse_signal_covariance.html'',
        est_intention = ''signal power estimate'', est_tag = ''inverse_signal_covariance''\<rparr>"
  by (simp add: dict_get_def estimates_dict_def)

lemma estimate_residual_covariance:
  "dict_get estimates_dict ''residual_covariance'' =
     Inr \<lparr>est_name = ''RESIDCOV'', est_type = ''complex'',
        est_description = ''residual_covariance (N)'',
        est_external_url = ''http://www.iris.edu/dms/products/emtf/residual_covariance.html'',
        est_intention = ''error estimate'', est_tag = ''residual_covariance''\<rparr>"
  by (simp add: dict_get_def estimates_dict_def)

lemma data_type_impedance:
  "dict_get data_types_dict ''impedance'' =
     Inr \<lparr>dt_name = ''Z'', dt_type = ''complex'', dt_output = ''E'', dt_input = ''H'',
        dt_units = ''[mV/km]/[nT]'', dt_description = ''MT impedance'',
        dt_external_url = ''http://www.iris.edu/dms/products/emtf/impedance.html'',
        dt_intention = ''primary data type'', dt_tag = ''impedance''\<rparr>"
  by (simp add: dict_get_def data_types_dict_def)

lemma data_type_tipper:
  "dict_get data_types_dict ''tipper'' =
     Inr \<lparr>dt_name = ''T'', dt_type = ''complex'', dt_output = ''H'', dt_input = ''H'',
        dt_units = ''[]'', dt_description = ''Vertical Field Transfer Functions (Tipper)'',
        dt_external_url = ''http://www.iris.edu/dms/products/emtf/tipper.html'',
        dt_intention = ''primary data type'', dt_tag = ''tipper''\<rparr>"
  by (simp add: dict_get_def data_types_dict_def)

lemma estimate_block:
  "(case zm of
      Some m \<Rightarrow> (if \<not> np_all_zero m then f else g)
    | None \<Rightarrow> (case tm of Some m \<Rightarrow> (if \<not> np_all_zero m then f else g) | None \<Rightarrow> g))
   = (if (\<exists>m. zm = Some m \<and> \<not> (\<forall>x\<in>set m. x = 0))
          \<or> (zm = None \<and> (\<exists>m. tm = Some m \<and> \<not> (\<forall>x\<in>set m. x = 0)))
      then f else g)"
  by (auto simp: np_all_zero_def list_all_iff split: option.splits)

lemma data_type_block:
  "(case zm of Some m \<Rightarrow> (if \<not> np_all_zero m then f else g) | None \<Rightarrow> g)
   = (if \<exists>m. zm = Some m \<and> \<not> (\<forall>x\<in>set m. x = 0) then f else g)"
  by (auto simp: np_all_zero_def list_all_iff split: option.splits)

lemma estimates_distinct:
  "dict_get estimates_dict ''variance'' \<noteq> dict_get estimates_dict ''inverse_signal_power''"
  "dict_get estimates_dict ''variance'' \<noteq> dict_get estimates_dict ''residual_covariance''"
  "dict_get estimates_dict ''inverse_signal_power'' \<noteq> dict_get estimates_dict ''residual_covariance''"
  unfolding estimate_variance estimate_inverse_signal_power estimate_residual_covariance
  by simp_all

lemma get_statistical_estimates_result:
  assumes var: "dict_get estimates_dict ''variance'' = Inr var"
    and isp: "dict_get estimates_dict ''inverse_signal_power'' = Inr isp"
    and rc: "dict_get estimates_dict ''residual_covariance'' = Inr rc"
  shows "get_statistical_estimates self =
       Inr (self\<lparr>estimates_list :=
         (if (\<exists>m. z_var (data self) = Some m \<and> \<not> (\<forall>x\<in>set m. x = 0))
              \<or> (z_var (data self) = None
                  \<and> (\<exists>m. t_var (data self) = Some m \<and> \<not> (\<forall>x\<in>set m. x = 0)))
          then [var] else [])
         @ (if (\<exists>m. z_invsigcov (data self) = Some m \<and> \<not> (\<forall>x\<in>set m. x = 0))
              \<or> (z_invsigcov (data self) = None
                  \<and> (\<exists>m. t_invsigcov (data self) = Some m \<and> \<not> (\<forall>x\<in>set m. x = 0)))
          then [isp] else [])
         @ (if (\<exists>m. z_residcov (data self) = Some m \<and> \<not> (\<forall>x\<in>set m. x = 0))
              \<or> (z_residcov (data self) = None
                  \<and> (\<exists>m. t_residcov (data self) = Some m \<and> \<not> (\<forall>x\<in>set m. x = 0)))
          then [rc] else [])\<rparr>)"
proof -
  define c1 where "c1 \<longleftrightarrow> (\<exists>m. z_var (data self) = Some m \<and> \<not> (\<forall>x\<in>set m. x = 0))
              \<or> (z_var (data self) = None
                  \<and> (\<exists>m. t_var (data self) = Some m \<and> \<not> (\<forall>x\<in>set m. x = 0)))"
  define c2 where "c2 \<longleftrightarrow> (\<exists>m. z_invsigcov (data self) = Some m \<and> \<not> (\<forall>x\<in>set m. x = 0))
              \<or> (z_invsigcov (data self) = None
                  \<and> (\<exists>m. t_invsigcov (data self) = Some m \<and> \<not> (\<forall>x\<in>set m. x = 0)))"
  define c3 where "c3 \<longleftrightarrow> (\<exists>m. z_residcov (data self) = Some m \<and> \<not> (\<forall>x\<in>set m. x = 0))
              \<or> (z_residcov (data self) = None
                  \<and> (\<exists>m. t_residcov (data self) = Some m \<and> \<not> (\<forall>x\<in>set m. x = 0)))"
  define s0 where "s0 = self\<lparr>estimates_list := []\<rparr>"
  define s1 where "s1 = (if c1 then s0\<lparr>estimates_list := estimates_list s0 @ [var]\<rparr> else s0)"
  define s2 where "s2 = (if c2 then s1\<lparr>estimates_list := estimates_list s1 @ [isp]\<rparr> else s1)"
  define s3 where "s3 = (if c3 then s2\<lparr>estimates_list := estimates_list s2 @ [rc]\<rparr> else s2)"
  have d0: "data s0 = data self" by (simp add: s0_def)
  have d1: "data s1 = data self" by (simp add: s1_def d0)
  have d2: "data s2 = data self" by (simp add: s2_def d1)
  have b1: "(case z_var (data s0) of
          Some m \<Rightarrow> (if \<not> np_all_zero m then append_estimate ''variance'' s0 else Inr s0)
        | None \<Rightarrow>
            (case t_var (data s0) of
               Some m \<Rightarrow> (if \<not> np_all_zero m then append_estimate ''variance'' s0 else Inr s0)
             | None \<Rightarrow> Inr s0)) = Inr s1"
    unfolding estimate_block d0 c1_def [symmetric] s1_def append_estimate_def var then_do_Inr
    by simp
  have b2: "(case z_invsigcov (data s1) of
             Some m \<Rightarrow>
               (if \<not> np_all_zero m then append_estimate ''inverse_signal_power'' s1 else Inr s1)
           | None \<Rightarrow>
               (case t_invsigcov (data s1) of
                  Some m \<Rightarrow>
                    (if \<not> np_all_zero m then append_estimate ''inverse_signal_power'' s1
                     else Inr s1)
                | None \<Rightarrow> Inr s1)) = Inr s2"
    unfolding estimate_block d1 c2_def [symmetric] s2_def append_estimate_def isp then_do_Inr
    by simp
  have b3: "(case z_residcov (data s2) of
               Some m \<Rightarrow>
                 (if \<not> np_all_zero m then append_estimate ''residual_covariance'' s2 else Inr s2)
             | None \<Rightarrow>
                 (case t_residcov (data s2) of
                    Some m \<Rightarrow>
                      (if \<not> np_all_zero m then append_estimate ''residual_covariance'' s2
                       else Inr s2)
                  | None \<Rightarrow> Inr s2)) = Inr s3"
    unfolding estimate_block d2 c3_def [symmetric] s3_def append_estimate_def rc then_do_Inr
    by simp
  have run: "get_statistical_estimates self = Inr s3"
    unfolding get_statistical_estimates_def Let_def s0_def [symmetric] b1 then_do_Inr b2 b3 ..
  have "s3 = self\<lparr>estimates_list :=
      (if c1 then [var] else []) @ (if c2 then [isp] else []) @ (if c3 then [rc] else [])\<rparr>"
    by (simp add: s3_def s2_def s1_def s0_def)
  with run show ?thesis
    unfolding c1_def c2_def c3_def by simp
qed

lemma get_data_types_result:
  assumes imp: "dict_get data_types_dict ''impedance'' = Inr imp"
    and tip: "dict_get data_types_dict ''tipper'' = Inr tip"
  shows "get_data_types self =
       Inr (self\<lparr>data_types_list :=
         (if \<exists>m. z (data self) = Some m \<and> \<not> (\<forall>x\<in>set m. x = 0) then [imp] else [])
         @ (if \<exists>m. t (data self) = Some m \<and> \<not> (\<forall>x\<in>set m. x = 0) then [tip] else [])\<rparr>)"
proof -
  define c1 where "c1 \<longleftrightarrow> (\<exists>m. z (data self) = Some m \<and> \<not> (\<forall>x\<in>set m. x = 0))"
  define c2 where "c2 \<longleftrightarrow> (\<exists>m. t (data self) = Some m \<and> \<not> (\<forall>x\<in>set m. x = 0))"
  define s0 where "s0 = self\<lparr>data_types_list := []\<rparr>"
  define s1 where "s1 = (if c1 then s0\<lparr>data_types_list := data_types_list s0 @ [imp]\<rparr> else s0)"
  define s2 where "s2 = (if c2 then s1\<lparr>data_types_list := data_types_list s1 @ [tip]\<rparr> else s1)"
  have d0: "data s0 = data self" by (simp add: s0_def)
  have d1: "data s1 = data self" by (simp add: s1_def d0)
  have b1: "(case z (data s0) of
          Some m \<Rightarrow> (if \<not> np_all_zero m then append_data_type ''impedance'' s0 else Inr s0)
        | None \<Rightarrow> Inr s0) = Inr s1"
    unfolding data_type_block d0 c1_def [symmetric] s1_def append_data_type_def imp then_do_Inr
    by simp
  have b2: "(case t (data s1) of
            Some m \<Rightarrow> (if \<not> np_all_zero m then append_data_type ''tipper'' s1 else Inr s1)
          | None \<Rightarrow> Inr s1) = Inr s2"
    unfolding data_type_block d1 c2_def [symmetric] s2_def append_data_type_def tip then_do_Inr
    by simp
  have run: "get_data_types self = Inr s2"
    unfolding get_data_types_def Let_def s0_def [symmetric] b1 then_do_Inr b2 ..
  have "s2 = self\<lparr>data_types_list := (if c1 then [imp] else []) @ (if c2 then [tip] else [])\<rparr>"
    by (simp add: s2_def s1_def s0_def)
  with run show ?thesis
    unfolding c1_def c2_def by simp
qed

lemma data_types_distinct:
  "dict_get data_types_dict ''impedance'' \<noteq> dict_get data_types_dict ''tipper''"
  unfolding data_type_impedance data_type_tipper by simp

lemma get_statistical_estimates_data:
  "\<exists>s1. get_statistical_estimates self = Inr s1 \<and> data s1 = data self"
proof -
  from estimate_variance estimate_inverse_signal_power estimate_residual_covariance
  obtain var isp rc where "dict_get estimates_dict ''variance'' = Inr var"
    "dict_get estimates_dict ''inverse_signal_power'' = Inr isp"
    "dict_get estimates_dict ''residual_covariance'' = Inr rc"
    by blast
  from get_statistical_estimates_result [OF this, of self] show ?thesis
    by simp
qed

text \<open>
  C2: after the two derivations that open every \<open>write\<close>, the data-type list contains
  the impedance catalog entry exactly when the impedance matrix is non-null and not
  identically zero, and the tipper entry exactly when the tipper matrix is non-null and
  not identically zero, each independently of the other; an all-zero impedance matrix
  never lists impedance, and a non-zero impedance matrix with a null tipper lists exactly
  the impedance entry. Neither catalog lookup fails.
\<close>

theorem write_data_type_tags:
  "\<exists>self' imp tip.
     write_derived_tags self = Inr self'
   \<and> dict_get data_types_dict ''impedance'' = Inr imp \<and> dt_tag imp = ''impedance''
   \<and> dict_get data_types_dict ''tipper'' = Inr tip \<and> dt_tag tip = ''tipper''
   \<and> set (data_types_list self') \<subseteq> {imp, tip}
   \<and> (imp \<in> set (data_types_list self')
        \<longleftrightarrow> (\<exists>m. z (data self) = Some m \<and> \<not> (\<forall>x\<in>set m. x = 0)))
   \<and> (tip \<in> set (data_types_list self')
        \<longleftrightarrow> (\<exists>m. t (data self) = Some m \<and> \<not> (\<forall>x\<in>set m. x = 0)))
   \<and> ((\<exists>m. z (data self) = Some m \<and> (\<forall>x\<in>set m. x = 0))
        \<longrightarrow> imp \<notin> set (data_types_list self'))
   \<and> ((\<exists>m. z (data self) = Some m \<and> \<not> (\<forall>x\<in>set m. x = 0)) \<and> t (data self) = None
        \<longrightarrow> data_types_list self' = [imp])"
proof -
  obtain imp where imp: "dict_get data_types_dict ''impedance'' = Inr imp"
    and imp_tag: "dt_tag imp = ''impedance''"
    using data_type_impedance by simp
  obtain tip where tip: "dict_get data_types_dict ''tipper'' = Inr tip"
    and tip_tag: "dt_tag tip = ''tipper''"
    using data_type_tipper by simp
  from data_types_distinct imp tip have ne: "imp \<noteq> tip" by auto
  from get_statistical_estimates_data obtain s1 where
    s1: "get_statistical_estimates self = Inr s1" "data s1 = data self"
    by blast
  define c1 where "c1 \<longleftrightarrow> (\<exists>m. z (data self) = Some m \<and> \<not> (\<forall>x\<in>set m. x = 0))"
  define c2 where "c2 \<longleftrightarrow> (\<exists>m. t (data self) = Some m \<and> \<not> (\<forall>x\<in>set m. x = 0))"
  define self' where
    "self' = s1\<lparr>data_types_list := (if c1 then [imp] else []) @ (if c2 then [tip] else [])\<rparr>"
  have run: "write_derived_tags self = Inr self'"
    unfolding write_derived_tags_def s1(1) then_do_Inr
      get_data_types_result [OF imp tip] s1(2) self'_def c1_def c2_def ..
  have lst: "data_types_list self' = (if c1 then [imp] else []) @ (if c2 then [tip] else [])"
    by (simp add: self'_def)
  have a: "set (data_types_list self') \<subseteq> {imp, tip}"
    unfolding lst by auto
  have b: "imp \<in> set (data_types_list self') \<longleftrightarrow> c1"
    unfolding lst using ne by auto
  have c: "tip \<in> set (data_types_list self') \<longleftrightarrow> c2"
    unfolding lst using ne by auto
  have d: "(\<exists>m. z (data self) = Some m \<and> (\<forall>x\<in>set m. x = 0)) \<longrightarrow> \<not> c1"
    unfolding c1_def by auto
  have e: "t (data self) = None \<longrightarrow> \<not> c2"
    unfolding c2_def by auto
  have f: "c1 \<and> t (data self) = None \<longrightarrow> data_types_list self' = [imp]"
    unfolding lst using e by auto
  from run imp imp_tag tip tip_tag a b c d f show ?thesis
    unfolding c1_def c2_def by blast
qed

theorem write_data_type_tags_witness:
  "\<exists>self'. write_derived_tags (EMTFXML_init\<lparr>data := (data EMTFXML_init)\<lparr>z := Some [1, 0]\<rparr>\<rparr>) = Inr self'
      \<and> map dt_tag (data_types_list self') = [''impedance'']"
proof -
  let ?e = "EMTFXML_init\<lparr>data := (data EMTFXML_init)\<lparr>z := Some [1, 0]\<rparr>\<rparr>"
  have h: "(\<exists>m. z (data ?e) = Some m \<and> \<not> (\<forall>x\<in>set m. x = 0)) \<and> t (data ?e) = None"
    by (simp add: EMTFXML_init_def)
  have "\<exists>self' imp. write_derived_tags ?e = Inr self' \<and> dt_tag imp = ''impedance''
     \<and> ((\<exists>m. z (data ?e) = Some m \<and> \<not> (\<forall>x\<in>set m. x = 0)) \<and> t (data ?e) = None
        \<longrightarrow> data_types_list self' = [imp])"
    using write_data_type_tags [of ?e]
    by (elim exE conjE) (intro exI conjI, assumption+)
  then obtain self' imp where "write_derived_tags ?e = Inr self'" "dt_tag imp = ''impedance''"
     "(\<exists>m. z (data ?e) = Some m \<and> \<not> (\<forall>x\<in>set m. x = 0)) \<and> t (data ?e) = None
        \<longrightarrow> data_types_list self' = [imp]"
    by (elim exE conjE)
  with h show ?thesis by simp
qed

lemma get_data_types_keeps_estimates:
  "\<exists>s2. get_data_types s1 = Inr s2 \<and> estimates_list s2 = estimates_list s1
      \<and> data s2 = data s1"
proof -
  from data_type_impedance data_type_tipper
  obtain imp tip where "dict_get data_types_dict ''impedance'' = Inr imp"
    "dict_get data_types_dict ''tipper'' = Inr tip"
    by blast
  from get_data_types_result [OF this, of s1] show ?thesis
    by simp
qed

text \<open>
  C9: after the two derivations that open every \<open>write\<close>, each of the variance,
  inverse-signal-power and residual-covariance catalog entries is in the estimates list
  exactly when the impedance-associated matrix is non-null and not identically zero, or
  that matrix is null and the tipper-associated matrix is non-null and not identically
  zero; when the impedance-associated matrix is non-null and all zero the entry is absent
  whatever the tipper-associated matrix holds. No catalog lookup fails, and the list
  \<open>_get_statistical_estimates\<close> builds is the one the write keeps: \<open>_get_data_types\<close>
  leaves it as it is.
\<close>

theorem write_statistical_estimates:
  "\<exists>self' var isp rc.
     write_derived_tags self = Inr self'
   \<and> dict_get estimates_dict ''variance'' = Inr var
   \<and> dict_get estimates_dict ''inverse_signal_power'' = Inr isp
   \<and> dict_get estimates_dict ''residual_covariance'' = Inr rc
   \<and> set (estimates_list self') \<subseteq> {var, isp, rc}
   \<and> (var \<in> set (estimates_list self') \<longleftrightarrow>
         (\<exists>m. z_var (data self) = Some m \<and> \<not> (\<forall>x\<in>set m. x = 0))
         \<or> (z_var (data self) = None
             \<and> (\<exists>m. t_var (data self) = Some m \<and> \<not> (\<forall>x\<in>set m. x = 0))))
   \<and> (isp \<in> set (estimates_list self') \<longleftrightarrow>
         (\<exists>m. z_invsigcov (data self) = Some m \<and> \<not> (\<forall>x\<in>set m. x = 0))
         \<or> (z_invsigcov (data self) = None
             \<and> (\<exists>m. t_invsigcov (data self) = Some m \<and> \<not> (\<forall>x\<in>set m. x = 0))))
   \<and> (rc \<in> set (estimates_list self') \<longleftrightarrow>
         (\<exists>m. z_residcov (data self) = Some m \<and> \<not> (\<forall>x\<in>set m. x = 0))
         \<or> (z_residcov (data self) = None
             \<and> (\<exists>m. t_residcov (data self) = Some m \<and> \<not> (\<forall>x\<in>set m. x = 0))))
   \<and> ((\<exists>m. z_var (data self) = Some m \<and> (\<forall>x\<in>set m. x = 0))
         \<longrightarrow> var \<notin> set (estimates_list self'))
   \<and> ((\<exists>m. z_invsigcov (data self) = Some m \<and> (\<forall>x\<in>set m. x = 0))
         \<longrightarrow> isp \<notin> set (estimates_list self'))
   \<and> ((\<exists>m. z_residcov (data self) = Some m \<and> (\<forall>x\<in>set m. x = 0))
         \<longrightarrow> rc \<notin> set (estimates_list self'))"
proof -
  obtain var where var: "dict_get estimates_dict ''variance'' = Inr var"
    using estimate_variance by simp
  obtain isp where isp: "dict_get estimates_dict ''inverse_signal_power'' = Inr isp"
    using estimate_inverse_signal_power by simp
  obtain rc where rc: "dict_get estimates_dict ''residual_covariance'' = Inr rc"
    using estimate_residual_covariance by simp
  from estimates_distinct var isp rc have ne: "var \<noteq> isp" "var \<noteq> rc" "isp \<noteq> rc"
    by auto
  define c1 where "c1 \<longleftrightarrow> (\<exists>m. z_var (data self) = Some m \<and> \<not> (\<forall>x\<in>set m. x = 0))
              \<or> (z_var (data self) = None
                  \<and> (\<exists>m. t_var (data self) = Some m \<and> \<not> (\<forall>x\<in>set m. x = 0)))"
  define c2 where "c2 \<longleftrightarrow> (\<exists>m. z_invsigcov (data self) = Some m \<and> \<not> (\<forall>x\<in>set m. x = 0))
              \<or> (z_invsigcov (data self) = None
                  \<and> (\<exists>m. t_invsigcov (data self) = Some m \<and> \<not> (\<forall>x\<in>set m. x = 0)))"
  define c3 where "c3 \<longleftrightarrow> (\<exists>m. z_residcov (data self) = Some m \<and> \<not> (\<forall>x\<in>set m. x = 0))
              \<or> (z_residcov (data self) = None
                  \<and> (\<exists>m. t_residcov (data self) = Some m \<and> \<not> (\<forall>x\<in>set m. x = 0)))"
  define s1 where "s1 = self\<lparr>estimates_list :=
      (if c1 then [var] else []) @ (if c2 then [isp] else []) @ (if c3 then [rc] else [])\<rparr>"
  have first: "get_statistical_estimates self = Inr s1"
    unfolding get_statistical_estimates_result [OF var isp rc] s1_def c1_def c2_def c3_def ..
  from get_data_types_keeps_estimates [of s1] obtain self' where
    second: "get_data_types s1 = Inr self'" and keep: "estimates_list self' = estimates_list s1"
    by blast
  have run: "write_derived_tags self = Inr self'"
    unfolding write_derived_tags_def first then_do_Inr by (rule second)
  have lst: "estimates_list self' =
      (if c1 then [var] else []) @ (if c2 then [isp] else []) @ (if c3 then [rc] else [])"
    by (simp add: keep s1_def)
  have a: "set (estimates_list self') \<subseteq> {var, isp, rc}"
    unfolding lst by auto
  have b1: "var \<in> set (estimates_list self') \<longleftrightarrow> c1"
    unfolding lst using ne by auto
  have b2: "isp \<in> set (estimates_list self') \<longleftrightarrow> c2"
    unfolding lst using ne by auto
  have b3: "rc \<in> set (estimates_list self') \<longleftrightarrow> c3"
    unfolding lst using ne by auto
  have d1: "(\<exists>m. z_var (data self) = Some m \<and> (\<forall>x\<in>set m. x = 0)) \<longrightarrow> \<not> c1"
    unfolding c1_def by auto
  have d2: "(\<exists>m. z_invsigcov (data self) = Some m \<and> (\<forall>x\<in>set m. x = 0)) \<longrightarrow> \<not> c2"
    unfolding c2_def by auto
  have d3: "(\<exists>m. z_residcov (data self) = Some m \<and> (\<forall>x\<in>set m. x = 0)) \<longrightarrow> \<not> c3"
    unfolding c3_def by auto
  from d1 b1 have e1: "(\<exists>m. z_var (data self) = Some m \<and> (\<forall>x\<in>set m. x = 0))
         \<longrightarrow> var \<notin> set (estimates_list self')" by blast
  from d2 b2 have e2: "(\<exists>m. z_invsigcov (data self) = Some m \<and> (\<forall>x\<in>set m. x = 0))
         \<longrightarrow> isp \<notin> set (estimates_list self')" by blast
  from d3 b3 have e3: "(\<exists>m. z_residcov (data self) = Some m \<and> (\<forall>x\<in>set m. x = 0))
         \<longrightarrow> rc \<notin> set (estimates_list self')" by blast
  show ?thesis
    apply (rule exI [of _ self'], rule exI [of _ var], rule exI [of _ isp], rule exI [of _ rc])
    using run var isp rc a b1 b2 b3 e1 e2 e3
    unfolding c1_def c2_def c3_def
    apply (intro conjI)
    apply assumption+
    done
qed

theorem write_statistical_estimates_witness:
  "\<exists>self'. write_derived_tags
       (EMTFXML_init\<lparr>data := (data EMTFXML_init)
          \<lparr>z_var := Some [0, 0], t_var := Some [2], t_residcov := Some [1]\<rparr>\<rparr>) = Inr self'
      \<and> est_name ` set (estimates_list self') = {''RESIDCOV''}"
proof -
  let ?e = "EMTFXML_init\<lparr>data := (data EMTFXML_init)
          \<lparr>z_var := Some [0, 0], t_var := Some [2], t_residcov := Some [1]\<rparr>\<rparr>"
  have z0: "\<exists>m. z_var (data ?e) = Some m \<and> (\<forall>x\<in>set m. x = 0)"
    by (simp add: EMTFXML_init_def)
  have i0: "\<not> ((\<exists>m. z_invsigcov (data ?e) = Some m \<and> \<not> (\<forall>x\<in>set m. x = 0))
         \<or> (z_invsigcov (data ?e) = None
             \<and> (\<exists>m. t_invsigcov (data ?e) = Some m \<and> \<not> (\<forall>x\<in>set m. x = 0))))"
    by (simp add: EMTFXML_init_def)
  have r0: "(\<exists>m. z_residcov (data ?e) = Some m \<and> \<not> (\<forall>x\<in>set m. x = 0))
         \<or> (z_residcov (data ?e) = None
             \<and> (\<exists>m. t_residcov (data ?e) = Some m \<and> \<not> (\<forall>x\<in>set m. x = 0)))"
    by (simp add: EMTFXML_init_def)
  have "\<exists>self' var isp rc. write_derived_tags ?e = Inr self'
     \<and> dict_get estimates_dict ''residual_covariance'' = Inr rc
     \<and> set (estimates_list self') \<subseteq> {var, isp, rc}
     \<and> var \<notin> set (estimates_list self')
     \<and> isp \<notin> set (estimates_list self')
     \<and> rc \<in> set (estimates_list self')"
    using write_statistical_estimates [of ?e] z0 i0 r0
    by (elim exE conjE) (intro exI conjI, (assumption | simp)+)
  then obtain self' var isp rc where r: "write_derived_tags ?e = Inr self'"
    "dict_get estimates_dict ''residual_covariance'' = Inr rc"
    "set (estimates_list self') \<subseteq> {var, isp, rc}"
    "var \<notin> set (estimates_list self')" "isp \<notin> set (estimates_list self')"
    "rc \<in> set (estimates_list self')"
    by (elim exE conjE)
  from r(3-6) have "set (estimates_list self') = {rc}" by auto
  moreover have "est_name rc = ''RESIDCOV''"
    using r(2) by (auto simp: estimate_residual_covariance)
  ultimately have "est_name ` set (estimates_list self') = {''RESIDCOV''}"
    by simp
  with r(1) show ?thesis by blast
qed

section \<open>C10: missing channels in the \<open>station_metadata\<close> setter\<close>

lemma get_channel_hx_missing:
  "get_channel (Run_init\<lparr>run_id := Some ''001'',
        channels := [(Channel_init Electric)\<lparr>component := Some ''ex''\<rparr>,
                     (Channel_init Electric)\<lparr>component := Some ''ey''\<rparr>]\<rparr>) (Some ''hx'') = None"
  by (simp add: get_channel_def has_channel_def channels_recorded_all_def Run_init_def
      Channel_init_def)

text \<open>
  C10 fails on the code: for a station whose only run records \<open>ex\<close> and \<open>ey\<close> and no
  magnetic channel, the miss of \<open>hx\<close> is logged, and then the sensor test placed after the
  \<open>try\<close> statement raises \<open>AttributeError\<close>; the setter does not complete and no field-note
  record is produced.
\<close>

theorem setter_missing_magnetic_raises:
  "station_metadata_setter_runs
     (Station_init\<lparr>station_id := Some ''mt01'',
        runs := [(Some ''001'',
                  Run_init\<lparr>run_id := Some ''001'',
                    channels := [(Channel_init Electric)\<lparr>component := Some ''ex''\<rparr>,
                                 (Channel_init Electric)\<lparr>component := Some ''ey''\<rparr>]\<rparr>)]\<rparr>)
     EMTFXML_init
   = Raise AttributeError
       (EMTFXML_init\<lparr>emtf_logger := [(Debug, ''Did not find hx in run'')]\<rparr>)"
  by (simp add: station_metadata_setter_runs_def ld_values_def Station_init_def
      get_channel_hx_missing EMTFXML_init_def)

end
